theory Spec2Isabelle
  imports Main "HOL-Library.Word" "HOL-Library.AList"
begin

section \<open>The worker WebSocket channel: data model\<close>

text \<open>
  The channel of \<^verbatim>\<open>pkg/channels/worker_ws.go\<close>. Go strings are byte sequences, and so
  is \<^typ>\<open>string\<close>: one \<^typ>\<open>char\<close> per byte, UTF-8 where the text is not ASCII.
\<close>

record workerWSIdentity =
  ID :: string
  Key :: string

text \<open>
  \<^verbatim>\<open>config.WorkerWSConfig\<close> is declared outside the files at hand; the fields are the
  ones the channel reads. The two intervals are Go \<^verbatim>\<open>int\<close> values (whole seconds), held here
  as \<^typ>\<open>int\<close>; the conversion to the 64-bit \<^verbatim>\<open>time.Duration\<close> is where their width
  comes in.
\<close>

record WorkerWSConfig =
  Address :: string
  Role :: string
  Name :: string
  Tags :: "string list"
  AuthKey :: string
  IdentityFile :: string
  ReconnectInterval :: int
  PingInterval :: int
  AllowFrom :: "string list"

definition byte :: "char \<Rightarrow> nat" where
  "byte c = of_char c"

section \<open>The string functions of the Go library\<close>

text \<open>
  \<^verbatim>\<open>strings.TrimSpace\<close> removes the leading and the trailing white space of a string, as
  Unicode defines it (\<^verbatim>\<open>unicode.IsSpace\<close>). Read from the left, a string starts with a
  white-space rune exactly when it starts with the UTF-8 encoding of one; read from the
  right (\<^verbatim>\<open>utf8.DecodeLastRuneInString\<close>), it ends with one exactly when it ends with such
  an encoding. The encodings are: tab, line feed, vertical tab, form feed, carriage
  return, space, U+0085, U+00A0, U+1680, U+2000 to U+200A, U+2028, U+2029, U+202F,
  U+205F and U+3000.
\<close>

definition spaceRunes :: "string list" where
  "spaceRunes =
     [[CHR 0x09], [CHR 0x0A], [CHR 0x0B], [CHR 0x0C], [CHR 0x0D], [CHR 0x20],
      [CHR 0xC2, CHR 0x85], [CHR 0xC2, CHR 0xA0],
      [CHR 0xE1, CHR 0x9A, CHR 0x80],
      [CHR 0xE2, CHR 0x80, CHR 0x80], [CHR 0xE2, CHR 0x80, CHR 0x81],
      [CHR 0xE2, CHR 0x80, CHR 0x82], [CHR 0xE2, CHR 0x80, CHR 0x83],
      [CHR 0xE2, CHR 0x80, CHR 0x84], [CHR 0xE2, CHR 0x80, CHR 0x85],
      [CHR 0xE2, CHR 0x80, CHR 0x86], [CHR 0xE2, CHR 0x80, CHR 0x87],
      [CHR 0xE2, CHR 0x80, CHR 0x88], [CHR 0xE2, CHR 0x80, CHR 0x89],
      [CHR 0xE2, CHR 0x80, CHR 0x8A],
      [CHR 0xE2, CHR 0x80, CHR 0xA8], [CHR 0xE2, CHR 0x80, CHR 0xA9],
      [CHR 0xE2, CHR 0x80, CHR 0xAF], [CHR 0xE2, CHR 0x81, CHR 0x9F],
      [CHR 0xE3, CHR 0x80, CHR 0x80]]"

text \<open>The string without the first of the encodings \<open>es\<close> it starts with, if there is one.\<close>

fun stripOne :: "string list \<Rightarrow> string \<Rightarrow> string option" where
  "stripOne [] s = None"
| "stripOne (e # es) s =
     (if e \<noteq> [] \<and> take (length e) s = e then Some (drop (length e) s)
      else stripOne es s)"

lemma stripOne_shorter: "stripOne es s = Some r \<Longrightarrow> length r < length s"
proof (induction es)
  case Nil
  then show ?case by simp
next
  case (Cons e es)
  show ?case
  proof (cases "e \<noteq> [] \<and> take (length e) s = e")
    case True
    then have "s \<noteq> []" by auto
    moreover have "r = drop (length e) s" using Cons.prems True by simp
    ultimately show ?thesis using True by (cases e) auto
  next
    case False
    then show ?thesis using Cons by auto
  qed
qed

function TrimLeftRunes :: "string list \<Rightarrow> string \<Rightarrow> string" where
  "TrimLeftRunes es s =
     (case stripOne es s of None \<Rightarrow> s | Some r \<Rightarrow> TrimLeftRunes es r)"
  by pat_completeness auto
termination
  by (relation "measure (\<lambda>(es, s). length s)") (auto dest: stripOne_shorter)

declare TrimLeftRunes.simps [simp del]

definition TrimSpace :: "string \<Rightarrow> string" where
  "TrimSpace s =
     rev (TrimLeftRunes (map rev spaceRunes) (rev (TrimLeftRunes spaceRunes s)))"

text \<open>
  \<^verbatim>\<open>strings.Split\<close> and \<^verbatim>\<open>strings.Contains\<close>, for a separator of one byte (the channel
  splits at the comma only): the pieces between the separators, one more than there
  are separators, so the empty string has one piece, itself empty.
\<close>

fun Split :: "string \<Rightarrow> char \<Rightarrow> string list" where
  "Split [] sep = [[]]"
| "Split (c # cs) sep =
     (if c = sep then [] # Split cs sep
      else (case Split cs sep of [] \<Rightarrow> [[c]] | p # ps \<Rightarrow> (c # p) # ps))"

definition Contains :: "string \<Rightarrow> char \<Rightarrow> bool" where
  "Contains s sep \<longleftrightarrow> sep \<in> set s"

text \<open>
  \<^verbatim>\<open>strings.EqualFold\<close> compares under Unicode simple case folding. The channel compares
  with the word all, whose letters have no case variant outside ASCII, so folding the
  ASCII letters decides it; no other use is made of this definition.
\<close>

definition toLowerASCII :: "char \<Rightarrow> char" where
  "toLowerASCII c =
     (let n = byte c in
      if 65 \<le> n \<and> n \<le> 90 then ''abcdefghijklmnopqrstuvwxyz'' ! (n - 65) else c)"

definition EqualFold :: "string \<Rightarrow> string \<Rightarrow> bool" where
  "EqualFold s t \<longleftrightarrow> map toLowerASCII s = map toLowerASCII t"

section \<open>JSON texts, as the Go decoder reads them\<close>

text \<open>
  \<^verbatim>\<open>json.Unmarshal\<close> first checks that its input is one JSON value (RFC 8259) with white
  space around it, nested at most 10000 deep, and then decodes it into the target. This
  section is the first half: UTF-8, string literals, number literals, tokens.
\<close>

subsection \<open>UTF-8\<close>

definition isCont :: "char \<Rightarrow> bool" where
  "isCont c \<longleftrightarrow> 0x80 \<le> byte c \<and> byte c \<le> 0xBF"

text \<open>
  \<^verbatim>\<open>utf8.DecodeRune\<close>, as far as the decoder needs it: the number of bytes of the encoded
  rune a string starts with, 0 when it starts with no valid encoding.
\<close>

definition runeWidth :: "string \<Rightarrow> nat" where
  "runeWidth s =
     (case s of
        [] \<Rightarrow> 0
      | c0 # r0 \<Rightarrow>
          let b0 = byte c0 in
          if b0 < 0x80 then 1
          else if b0 < 0xC2 then 0
          else (case r0 of
                  [] \<Rightarrow> 0
                | c1 # r1 \<Rightarrow>
                    let b1 = byte c1 in
                    if b0 < 0xE0 then (if isCont c1 then 2 else 0)
                    else (case r1 of
                            [] \<Rightarrow> 0
                          | c2 # r2 \<Rightarrow>
                              if b0 < 0xF0 then
                                (if (if b0 = 0xE0 then 0xA0 \<le> b1 \<and> b1 \<le> 0xBF
                                     else if b0 = 0xED then 0x80 \<le> b1 \<and> b1 \<le> 0x9F
                                     else isCont c1) \<and> isCont c2 then 3 else 0)
                              else (case r2 of
                                      [] \<Rightarrow> 0
                                    | c3 # r3 \<Rightarrow>
                                        if b0 \<le> 0xF4 \<and>
                                           (if b0 = 0xF0 then 0x90 \<le> b1 \<and> b1 \<le> 0xBF
                                            else if b0 = 0xF4 then 0x80 \<le> b1 \<and> b1 \<le> 0x8F
                                            else isCont c1) \<and> isCont c2 \<and> isCont c3
                                        then 4 else 0))))"

text \<open>\<^verbatim>\<open>utf8.EncodeRune\<close> of a code point that is no surrogate.\<close>

definition encodeRune :: "nat \<Rightarrow> string" where
  "encodeRune r =
     (if r < 0x80 then [char_of r]
      else if r < 0x800 then [char_of (0xC0 + r div 64), char_of (0x80 + r mod 64)]
      else if r < 0x10000 then
        [char_of (0xE0 + r div 4096), char_of (0x80 + r div 64 mod 64), char_of (0x80 + r mod 64)]
      else
        [char_of (0xF0 + r div 262144), char_of (0x80 + r div 4096 mod 64),
         char_of (0x80 + r div 64 mod 64), char_of (0x80 + r mod 64)])"

text \<open>U+FFFD, which stands in for every byte that is not UTF-8 and every lone surrogate.\<close>

definition replacementChar :: string where
  "replacementChar = [CHR 0xEF, CHR 0xBF, CHR 0xBD]"

subsection \<open>String literals\<close>

definition hexVal :: "char \<Rightarrow> nat option" where
  "hexVal c =
     (let b = byte c in
      if 48 \<le> b \<and> b \<le> 57 then Some (b - 48)
      else if 97 \<le> b \<and> b \<le> 102 then Some (b - 87)
      else if 65 \<le> b \<and> b \<le> 70 then Some (b - 55)
      else None)"

text \<open>\<^verbatim>\<open>getu4\<close>: the code unit four hexadecimal digits denote.\<close>

definition hex4 :: "string \<Rightarrow> nat option" where
  "hex4 s =
     (case s of
        [a, b, c, d] \<Rightarrow>
          (case (hexVal a, hexVal b, hexVal c, hexVal d) of
             (Some x, Some y, Some z, Some w) \<Rightarrow> Some (((x * 16 + y) * 16 + z) * 16 + w)
           | _ \<Rightarrow> None)
      | _ \<Rightarrow> None)"

text \<open>
  The scanner inside a string literal, from after the opening quote: the body up to the
  closing quote, and what follows that quote. A byte below 0x20 and a backslash that
  starts no escape are errors; bytes from 0x80 on pass unexamined.
\<close>

fun scanString :: "string \<Rightarrow> (string \<times> string) option" where
  "scanString [] = None"
| "scanString (c # cs) =
     (if c = CHR 0x22 then Some ([], cs)
      else if c = CHR 0x5C then
        (case cs of
           [] \<Rightarrow> None
         | e # r \<Rightarrow>
             if e \<in> set [CHR ''b'', CHR ''f'', CHR ''n'', CHR ''r'', CHR ''t'',
                          CHR 0x5C, CHR ''/'', CHR 0x22]
             then map_option (\<lambda>(b, rest). (c # e # b, rest)) (scanString r)
             else if e = CHR ''u'' \<and> hex4 (take 4 r) \<noteq> None
             then map_option (\<lambda>(b, rest). (c # e # take 4 r @ b, rest)) (scanString (drop 4 r))
             else None)
      else if byte c < 0x20 then None
      else map_option (\<lambda>(b, rest). (c # b, rest)) (scanString cs))"

definition escapeByte :: "char \<Rightarrow> char" where
  "escapeByte e =
     (if e = CHR ''b'' then CHR 0x08 else if e = CHR ''f'' then CHR 0x0C
      else if e = CHR ''n'' then CHR 0x0A else if e = CHR ''r'' then CHR 0x0D
      else if e = CHR ''t'' then CHR 0x09 else e)"

text \<open>
  \<^verbatim>\<open>unquote\<close>: the Go string a scanned body denotes. Escapes are replaced, a pair of
  escaped surrogates becomes one rune, a surrogate without its partner and every byte
  that is not UTF-8 become U+FFFD.
\<close>

function unquote :: "string \<Rightarrow> string" where
  "unquote [] = []"
| "unquote (c # cs) =
     (if c = CHR 0x5C then
        (case cs of
           [] \<Rightarrow> []
         | e # r \<Rightarrow>
             if e = CHR ''u'' then
               (case hex4 (take 4 r) of
                  None \<Rightarrow> []
                | Some rr \<Rightarrow>
                    let r1 = drop 4 r in
                    if 0xD800 \<le> rr \<and> rr < 0xE000 then
                      (case (if take 2 r1 = [CHR 0x5C, CHR ''u''] then hex4 (take 4 (drop 2 r1))
                             else None) of
                         Some rr1 \<Rightarrow>
                           if rr < 0xDC00 \<and> 0xDC00 \<le> rr1 \<and> rr1 < 0xE000
                           then encodeRune (0x10000 + (rr - 0xD800) * 0x400 + (rr1 - 0xDC00))
                                  @ unquote (drop 6 r1)
                           else replacementChar @ unquote r1
                       | None \<Rightarrow> replacementChar @ unquote r1)
                    else encodeRune rr @ unquote r1)
             else escapeByte e # unquote r)
      else if byte c < 0x80 then c # unquote cs
      else (let w = runeWidth (c # cs) in
            if w = 0 then replacementChar @ unquote cs
            else take w (c # cs) @ unquote (drop (w - 1) cs)))"
  by pat_completeness auto
termination
  by (relation "measure length") auto

subsection \<open>Number literals\<close>

definition isDigit :: "char \<Rightarrow> bool" where
  "isDigit c \<longleftrightarrow> 48 \<le> byte c \<and> byte c \<le> 57"

definition isNumberByte :: "char \<Rightarrow> bool" where
  "isNumberByte c \<longleftrightarrow>
     isDigit c \<or> c \<in> set [CHR ''-'', CHR ''+'', CHR ''.'', CHR ''e'', CHR ''E'']"

text \<open>
  A number is an optional minus, then 0 or a digit from 1 to 9 with more digits, then
  an optional fraction (a point and digits), then an optional exponent (e or E, an
  optional sign, digits).
\<close>

definition validExponent :: "string \<Rightarrow> bool" where
  "validExponent s \<longleftrightarrow>
     (case s of
        [] \<Rightarrow> True
      | c # r \<Rightarrow>
          (c = CHR ''e'' \<or> c = CHR ''E'') \<and>
          (let d = (case r of [] \<Rightarrow> []
                    | x # r' \<Rightarrow> if x = CHR ''+'' \<or> x = CHR ''-'' then r' else r)
           in d \<noteq> [] \<and> list_all isDigit d))"

definition validFraction :: "string \<Rightarrow> bool" where
  "validFraction s \<longleftrightarrow>
     (case s of
        [] \<Rightarrow> True
      | c # r \<Rightarrow>
          if c = CHR ''.'' then
            takeWhile isDigit r \<noteq> [] \<and> validExponent (dropWhile isDigit r)
          else validExponent s)"

definition validNumber :: "string \<Rightarrow> bool" where
  "validNumber s \<longleftrightarrow>
     (let u = (case s of [] \<Rightarrow> [] | c # r \<Rightarrow> if c = CHR ''-'' then r else s) in
      case u of
        [] \<Rightarrow> False
      | c # r \<Rightarrow>
          if c = CHR ''0'' then validFraction r
          else isDigit c \<and> validFraction (dropWhile isDigit r))"

subsection \<open>Tokens\<close>

datatype token =
    TLBrace | TRBrace | TLBracket | TRBracket | TColon | TComma
  | TString string | TNumber string | TTrue | TFalse | TNull

definition isJSONSpace :: "char \<Rightarrow> bool" where
  "isJSONSpace c \<longleftrightarrow> c \<in> set [CHR 0x20, CHR 0x09, CHR 0x0D, CHR 0x0A]"

lemma scanString_shorter: "scanString s = Some (b, r) \<Longrightarrow> length r < length s"
proof (induction s arbitrary: b r rule: scanString.induct)
  case 1
  then show ?case by simp
next
  case (2 c cs)
  then show ?case
    by (fastforce split: if_splits list.splits option.splits prod.splits)
qed

text \<open>
  The tokens of a text; none when some byte fits no token. A string token holds the
  unquoted string, a number token the literal as written.
\<close>

function tokens :: "string \<Rightarrow> token list option" where
  "tokens [] = Some []"
| "tokens (c # cs) =
     (if isJSONSpace c then tokens cs
      else if c = CHR ''{'' then map_option ((#) TLBrace) (tokens cs)
      else if c = CHR ''}'' then map_option ((#) TRBrace) (tokens cs)
      else if c = CHR ''['' then map_option ((#) TLBracket) (tokens cs)
      else if c = CHR '']'' then map_option ((#) TRBracket) (tokens cs)
      else if c = CHR '':'' then map_option ((#) TColon) (tokens cs)
      else if c = CHR '','' then map_option ((#) TComma) (tokens cs)
      else if c = CHR 0x22 then
        (case scanString cs of
           None \<Rightarrow> None
         | Some (b, r) \<Rightarrow> map_option ((#) (TString (unquote b))) (tokens r))
      else if c = CHR ''-'' \<or> isDigit c then
        (if validNumber (takeWhile isNumberByte (c # cs))
         then map_option ((#) (TNumber (takeWhile isNumberByte (c # cs))))
                (tokens (dropWhile isNumberByte cs))
         else None)
      else if take 4 (c # cs) = ''true'' then map_option ((#) TTrue) (tokens (drop 3 cs))
      else if take 5 (c # cs) = ''false'' then map_option ((#) TFalse) (tokens (drop 4 cs))
      else if take 4 (c # cs) = ''null'' then map_option ((#) TNull) (tokens (drop 3 cs))
      else None)"
  by pat_completeness auto
termination
  by (relation "measure length")
     (auto dest: scanString_shorter simp: le_imp_less_Suc length_dropWhile_le)

subsection \<open>Values\<close>

text \<open>
  A JSON value as written: a number keeps its literal, an object its members in the
  order of the text, repeated keys included.
\<close>

datatype jvalue =
    JNull | JBool bool | JNumber string | JString string
  | JArray "jvalue list" | JObject "(string \<times> jvalue) list"

text \<open>
  The scanner keeps a stack of the containers that are open: an array with its elements
  so far, or an object with its members so far and the key whose value is awaited.
\<close>

datatype parseState = InArray "jvalue list" | InObject "(string \<times> jvalue) list" string

datatype expect =
    EValue | EValueOrClose | EKey | EKeyOrClose | EColon | ENext | EDone jvalue

definition maxNestingDepth :: nat where
  "maxNestingDepth = 10000"

definition putValue :: "jvalue \<Rightarrow> parseState list \<Rightarrow> parseState list \<times> expect" where
  "putValue v st =
     (case st of
        [] \<Rightarrow> ([], EDone v)
      | InArray vs # st' \<Rightarrow> (InArray (vs @ [v]) # st', ENext)
      | InObject ms k # st' \<Rightarrow> (InObject (ms @ [(k, v)]) k # st', ENext))"

definition beginValue :: "token \<Rightarrow> parseState list \<Rightarrow> (parseState list \<times> expect) option" where
  "beginValue t st =
     (case t of
        TLBracket \<Rightarrow>
          if length st < maxNestingDepth then Some (InArray [] # st, EValueOrClose) else None
      | TLBrace \<Rightarrow>
          if length st < maxNestingDepth then Some (InObject [] [] # st, EKeyOrClose) else None
      | TString s \<Rightarrow> Some (putValue (JString s) st)
      | TNumber n \<Rightarrow> Some (putValue (JNumber n) st)
      | TTrue \<Rightarrow> Some (putValue (JBool True) st)
      | TFalse \<Rightarrow> Some (putValue (JBool False) st)
      | TNull \<Rightarrow> Some (putValue JNull st)
      | _ \<Rightarrow> None)"

definition closeArray :: "parseState list \<Rightarrow> (parseState list \<times> expect) option" where
  "closeArray st =
     (case st of InArray vs # st' \<Rightarrow> Some (putValue (JArray vs) st') | _ \<Rightarrow> None)"

definition closeObject :: "parseState list \<Rightarrow> (parseState list \<times> expect) option" where
  "closeObject st =
     (case st of InObject ms k # st' \<Rightarrow> Some (putValue (JObject ms) st') | _ \<Rightarrow> None)"

definition beginKey :: "token \<Rightarrow> parseState list \<Rightarrow> (parseState list \<times> expect) option" where
  "beginKey t st =
     (case (t, st) of
        (TString k, InObject ms _ # st') \<Rightarrow> Some (InObject ms k # st', EColon)
      | _ \<Rightarrow> None)"

definition scanStep ::
  "parseState list \<times> expect \<Rightarrow> token \<Rightarrow> (parseState list \<times> expect) option" where
  "scanStep s t =
     (case s of (st, e) \<Rightarrow>
        (case e of
           EValue \<Rightarrow> beginValue t st
         | EValueOrClose \<Rightarrow> if t = TRBracket then closeArray st else beginValue t st
         | EKey \<Rightarrow> beginKey t st
         | EKeyOrClose \<Rightarrow> if t = TRBrace then closeObject st else beginKey t st
         | EColon \<Rightarrow> if t = TColon then Some (st, EValue) else None
         | ENext \<Rightarrow>
             (case st of
                InArray _ # _ \<Rightarrow>
                  if t = TComma then Some (st, EValue)
                  else if t = TRBracket then closeArray st else None
              | InObject _ _ # _ \<Rightarrow>
                  if t = TComma then Some (st, EKey)
                  else if t = TRBrace then closeObject st else None
              | [] \<Rightarrow> None)
         | EDone _ \<Rightarrow> None))"

fun scanTokens :: "parseState list \<times> expect \<Rightarrow> token list \<Rightarrow> jvalue option" where
  "scanTokens s [] = (case snd s of EDone v \<Rightarrow> Some v | _ \<Rightarrow> None)"
| "scanTokens s (t # ts) =
     (case scanStep s t of None \<Rightarrow> None | Some s' \<Rightarrow> scanTokens s' ts)"

text \<open>The value a text denotes; none when the text is not valid JSON.\<close>

definition parseJSON :: "string \<Rightarrow> jvalue option" where
  "parseJSON data =
     (case tokens data of None \<Rightarrow> None | Some ts \<Rightarrow> scanTokens ([], EValue) ts)"

section \<open>float64\<close>

text \<open>
  A finite \<^verbatim>\<open>float64\<close>: the sign, and the magnitude \<open>m / 2\<^sup>d\<close>. The decoder produces no
  other (a number out of range is an error). The decoder's values have \<open>m\<close> odd or
  \<open>d = 0\<close>; minus zero is the sign with magnitude 0.
\<close>

datatype float64 = Float64 bool nat nat

function bitlen :: "nat \<Rightarrow> nat" where
  "bitlen n = (if n = 0 then 0 else Suc (bitlen (n div 2)))"
  by pat_completeness auto
termination
  by (relation "measure id") auto

declare bitlen.simps [simp del]

text \<open>The largest \<open>e\<close> with \<open>2\<^sup>e \<le> num / den\<close>, for positive \<open>num\<close> and \<open>den\<close>.\<close>

definition floorLog2 :: "nat \<Rightarrow> nat \<Rightarrow> int" where
  "floorLog2 num den =
     (let e0 = int (bitlen num) - int (bitlen den) in
      if (if 0 \<le> e0 then den * 2 ^ nat e0 \<le> num else den \<le> num * 2 ^ nat (- e0))
      then e0 else e0 - 1)"

text \<open>The integer nearest to \<open>a / b\<close>, the even one of two that are equally near.\<close>

definition roundHalfEven :: "nat \<Rightarrow> nat \<Rightarrow> nat" where
  "roundHalfEven a b =
     (let q = a div b; r = a mod b in
      if 2 * r < b then q else if b < 2 * r then q + 1 else if even q then q else q + 1)"

function reduce :: "nat \<Rightarrow> nat \<Rightarrow> nat \<times> nat" where
  "reduce m d =
     (if m = 0 then (0, 0)
      else if d = 0 \<or> odd m then (m, d)
      else reduce (m div 2) (d - 1))"
  by pat_completeness auto
termination
  by (relation "measure snd") auto

declare reduce.simps [simp del]

text \<open>
  The \<^verbatim>\<open>float64\<close> nearest to \<open>num / den\<close>, ties to even: 53 significant bits, or fewer
  below \<open>2\<^sup>-\<^sup>1\<^sup>0\<^sup>2\<^sup>2\<close>, where the spacing stays \<open>2\<^sup>-\<^sup>1\<^sup>0\<^sup>7\<^sup>4\<close>. None when the result would be
  \<open>2\<^sup>1\<^sup>0\<^sup>2\<^sup>4\<close> or more.
\<close>

definition nearestFloat64 :: "bool \<Rightarrow> nat \<Rightarrow> nat \<Rightarrow> float64 option" where
  "nearestFloat64 neg num den =
     (if num = 0 then Some (Float64 neg 0 0)
      else
        let p = max (floorLog2 num den - 52) (- 1074);
            m = (if 0 \<le> p then roundHalfEven num (den * 2 ^ nat p)
                 else roundHalfEven (num * 2 ^ nat (- p)) den);
            p' = (if m = 2 ^ 53 then p + 1 else p);
            m' = (if m = 2 ^ 53 then 2 ^ 52 else m)
        in if 971 < p' then None
           else if 0 \<le> p' then Some (Float64 neg (m' * 2 ^ nat p') 0)
           else (case reduce m' (nat (- p')) of (a, d) \<Rightarrow> Some (Float64 neg a d)))"

definition digitsVal :: "string \<Rightarrow> nat" where
  "digitsVal s = foldl (\<lambda>n c. n * 10 + (byte c - 48)) 0 s"

text \<open>
  \<^verbatim>\<open>strconv.ParseFloat(s, 64)\<close> on a literal the scanner has accepted: the digits with
  the point removed, times ten to the exponent less the number of fraction digits.
\<close>

definition parseFloat :: "string \<Rightarrow> float64 option" where
  "parseFloat s =
     (let neg = (take 1 s = ''-'');
          u = (if neg then drop 1 s else s);
          ip = takeWhile isDigit u;
          r1 = dropWhile isDigit u;
          fp = (if take 1 r1 = ''.'' then takeWhile isDigit (drop 1 r1) else []);
          r2 = (if take 1 r1 = ''.'' then dropWhile isDigit (drop 1 r1) else r1);
          r3 = drop 1 r2;
          ex = (if take 1 r3 = ''-'' then - int (digitsVal (drop 1 r3))
                else if take 1 r3 = ''+'' then int (digitsVal (drop 1 r3))
                else int (digitsVal r3));
          n = digitsVal (ip @ fp);
          k = ex - int (length fp)
      in if 0 \<le> k then nearestFloat64 neg (n * 10 ^ nat k) 1
         else nearestFloat64 neg n (10 ^ nat (- k)))"

definition digitByte :: "nat \<Rightarrow> char" where
  "digitByte n = ''0123456789'' ! (n mod 10)"

function decimal :: "nat \<Rightarrow> string" where
  "decimal n = (if n < 10 then [digitByte n] else decimal (n div 10) @ [digitByte n])"
  by pat_completeness auto
termination
  by (relation "measure id") auto

declare decimal.simps [simp del]

text \<open>
  \<^verbatim>\<open>fmt.Sprintf("%.0f", f)\<close>: the sign, and the integer nearest to the magnitude, ties
  to even, in decimal. \<^verbatim>\<open>fmt.Sprintf("%d", i)\<close>: the integer in decimal.
\<close>

definition sprintf_f0 :: "float64 \<Rightarrow> string" where
  "sprintf_f0 f =
     (case f of Float64 neg m d \<Rightarrow>
        (if neg then ''-'' else []) @ decimal (roundHalfEven m (2 ^ d)))"

definition sprintf_d :: "int \<Rightarrow> string" where
  "sprintf_d i = (if i < 0 then ''-'' @ decimal (nat (- i)) else decimal (nat i))"

section \<open>Go values of dynamic type, and decoding into them\<close>

text \<open>
  The values of type \<^verbatim>\<open>any\<close> that occur: what \<^verbatim>\<open>json.Unmarshal\<close> builds (nil, bool,
  float64, string, slice, map), the other cases \<^verbatim>\<open>asString\<close> distinguishes
  (\<^verbatim>\<open>json.Number\<close>, \<^verbatim>\<open>int64\<close>, \<^verbatim>\<open>int\<close>), and the \<^verbatim>\<open>[]string\<close> of targets and tags. A map
  is a list of pairs with one entry per key.
\<close>

datatype any =
    ANil
  | ABool bool
  | AFloat64 float64
  | AString string
  | ANumber string
  | AInt64 int
  | AInt int
  | AStrings "string list"
  | ASlice "any list"
  | AMap "(string \<times> any) list"

text \<open>The assignment \<^verbatim>\<open>m[k] = v\<close> and the read \<^verbatim>\<open>m[k]\<close>, nil for a key that is not there.\<close>

definition mapSet :: "string \<Rightarrow> 'v \<Rightarrow> (string \<times> 'v) list \<Rightarrow> (string \<times> 'v) list" where
  "mapSet k v m = AList.update k v m"

definition mapGet :: "(string \<times> any) list \<Rightarrow> string \<Rightarrow> any" where
  "mapGet m k = (case map_of m k of None \<Rightarrow> ANil | Some v \<Rightarrow> v)"

text \<open>
  Decoding into an empty interface: numbers become \<^verbatim>\<open>float64\<close>, and one that is out of
  range makes the whole call fail; of the members of an object with the same key the
  last one stays.
\<close>

fun toAny :: "jvalue \<Rightarrow> any option" where
  "toAny JNull = Some ANil"
| "toAny (JBool b) = Some (ABool b)"
| "toAny (JNumber n) = map_option AFloat64 (parseFloat n)"
| "toAny (JString s) = Some (AString s)"
| "toAny (JArray vs) = map_option ASlice (those (map toAny vs))"
| "toAny (JObject ms) =
     map_option (\<lambda>kvs. AMap (foldl (\<lambda>m (k, v). mapSet k v m) [] kvs))
       (those (map (\<lambda>(k, v). map_option (Pair k) (toAny v)) ms))"

text \<open>\<^verbatim>\<open>json.Unmarshal(data, &v)\<close> for \<^verbatim>\<open>v\<close> of type \<^verbatim>\<open>any\<close>; none when it returns an error.\<close>

definition unmarshalAny :: "string \<Rightarrow> any option" where
  "unmarshalAny data = (case parseJSON data of None \<Rightarrow> None | Some v \<Rightarrow> toAny v)"

text \<open>
  The same for \<^verbatim>\<open>v\<close> of type \<^verbatim>\<open>map[string]any\<close>: the text must be an object, or
  \<^verbatim>\<open>null\<close>, which leaves the map nil (it reads as the empty map).
\<close>

definition unmarshalMap :: "string \<Rightarrow> (string \<times> any) list option" where
  "unmarshalMap data =
     (case parseJSON data of
        Some JNull \<Rightarrow> Some []
      | Some (JObject ms) \<Rightarrow> (case toAny (JObject ms) of Some (AMap m) \<Rightarrow> Some m | _ \<Rightarrow> None)
      | _ \<Rightarrow> None)"

subsection \<open>Decoding into a struct\<close>

text \<open>
  The text must be an object, or \<^verbatim>\<open>null\<close>, which sets nothing. A member whose key is a
  field's name up to case sets that field, in the order of the text; other members are
  skipped. Case folding maps the Kelvin sign (E2 84 AA) to K and the long s (C5 BF) to S
  besides the ASCII letters; these are the only runes outside ASCII that fold to an
  ASCII letter.
\<close>

definition toUpperASCII :: "char \<Rightarrow> char" where
  "toUpperASCII c =
     (let n = byte c in
      if 97 \<le> n \<and> n \<le> 122 then ''ABCDEFGHIJKLMNOPQRSTUVWXYZ'' ! (n - 97) else c)"

fun foldName :: "string \<Rightarrow> string" where
  "foldName [] = []"
| "foldName (c # cs) =
     (if take 3 (c # cs) = [CHR 0xE2, CHR 0x84, CHR 0xAA] then CHR ''K'' # foldName (drop 2 cs)
      else if take 2 (c # cs) = [CHR 0xC5, CHR 0xBF] then CHR ''S'' # foldName (drop 1 cs)
      else toUpperASCII c # foldName cs)"

definition structMembers :: "string \<Rightarrow> (string \<times> jvalue) list option" where
  "structMembers data =
     (case parseJSON data of
        Some JNull \<Rightarrow> Some []
      | Some (JObject ms) \<Rightarrow> Some ms
      | _ \<Rightarrow> None)"

text \<open>
  A value for a field of type \<^verbatim>\<open>string\<close> or \<^verbatim>\<open>bool\<close>: the field's new content, and
  whether the value fits. \<^verbatim>\<open>null\<close> leaves the field as it is; a value of another kind is
  an \<^verbatim>\<open>UnmarshalTypeError\<close>, which the call returns after it has read all members.
\<close>

definition stringField :: "jvalue \<Rightarrow> string \<Rightarrow> string \<times> bool" where
  "stringField v old =
     (case v of JString s \<Rightarrow> (s, True) | JNull \<Rightarrow> (old, True) | _ \<Rightarrow> (old, False))"

definition boolField :: "jvalue \<Rightarrow> bool \<Rightarrow> bool \<times> bool" where
  "boolField v old =
     (case v of JBool b \<Rightarrow> (b, True) | JNull \<Rightarrow> (old, True) | _ \<Rightarrow> (old, False))"

subsection \<open>Encoding a string\<close>

definition hexDigit :: "nat \<Rightarrow> char" where
  "hexDigit n = ''0123456789abcdef'' ! (n mod 16)"

text \<open>
  The encoder's string literal, as \<^verbatim>\<open>json.Marshal\<close> and \<^verbatim>\<open>json.MarshalIndent\<close> write
  it: quote and backslash after a backslash; backspace, form feed, line feed, carriage
  return and tab as backslash and a letter; the other control characters and the
  characters less-than, greater-than and ampersand as a u-escape of four hexadecimal
  digits; U+2028 and U+2029 as u-escapes; a byte that is not UTF-8 as the u-escape of
  U+FFFD.
\<close>

function quoteBody :: "string \<Rightarrow> string" where
  "quoteBody [] = []"
| "quoteBody (c # cs) =
     (let b = byte c in
      if b < 0x80 then
        (if c = CHR 0x5C \<or> c = CHR 0x22 then [CHR 0x5C, c]
         else if b = 0x08 then [CHR 0x5C, CHR ''b'']
         else if b = 0x0C then [CHR 0x5C, CHR ''f'']
         else if b = 0x0A then [CHR 0x5C, CHR ''n'']
         else if b = 0x0D then [CHR 0x5C, CHR ''r'']
         else if b = 0x09 then [CHR 0x5C, CHR ''t'']
         else if b < 0x20 \<or> c = CHR ''<'' \<or> c = CHR ''>'' \<or> c = CHR ''&''
         then [CHR 0x5C, CHR ''u'', CHR ''0'', CHR ''0'', hexDigit (b div 16), hexDigit b]
         else [c]) @ quoteBody cs
      else
        (let w = runeWidth (c # cs) in
         if w = 0 then CHR 0x5C # ''ufffd'' @ quoteBody cs
         else if take 3 (c # cs) = [CHR 0xE2, CHR 0x80, CHR 0xA8]
         then CHR 0x5C # ''u2028'' @ quoteBody (drop 2 cs)
         else if take 3 (c # cs) = [CHR 0xE2, CHR 0x80, CHR 0xA9]
         then CHR 0x5C # ''u2029'' @ quoteBody (drop 2 cs)
         else take w (c # cs) @ quoteBody (drop (w - 1) cs)))"
  by pat_completeness auto
termination
  by (relation "measure length") auto

definition quoteJSON :: "string \<Rightarrow> string" where
  "quoteJSON s = CHR 0x22 # quoteBody s @ [CHR 0x22]"

section \<open>The channel\<close>

text \<open>Every error the channel returns, by the message it is made with.\<close>

datatype error =
    NotRunning
  | AddressRequired
  | RoleRequired
  | RoleInvalid
  | NameRequired
  | TagsRequired
  | DialFailed
  | WaitingHelloFailed
  | HelloInvalidJSON
  | ExpectedHello string
  | SendAuthFailed
  | WaitingAuthOKFailed
  | AuthResponseInvalidJSON
  | ParseAuthOKFailed
  | AuthOKMissingIDKey
  | AuthRejected string string
  | NotConnected
  | WriteFailed
  | ReadFileFailed
  | IdentityInvalidJSON
  | WriteFileFailed
  | NilConnPanic

text \<open>
  A \<^verbatim>\<open>*websocket.Conn\<close> is known by its address; the nil pointer is \<^term>\<open>None\<close>. One call
  of \<^verbatim>\<open>ReadMessage\<close> yields a frame or an error (the read deadline among them). The
  identity file is the file at the resolved path: missing, unreadable, or its bytes.
\<close>

type_synonym conn = nat

datatype read = ReadError | ReadData string

datatype diskFile = NoFile | Unreadable | File string

record delivery =
  senderID :: string
  chatID :: string
  content :: string
  metadata :: "string \<rightharpoonup> string"

record OutboundMessage =
  ChatID :: string
  Content :: string

text \<open>
  The channel, and with it what its operations act on. \<open>running\<close> is the flag of the
  embedded \<^verbatim>\<open>BaseChannel\<close>; \<open>cancel\<close> says that \<^verbatim>\<open>c.cancel\<close> is set and \<open>cancelled\<close> that
  \<^verbatim>\<open>c.ctx\<close> is done; \<open>closed\<close> lists the connections \<^verbatim>\<open>Close\<close> was called on, the latest
  first; \<open>written\<close> lists the values written as frames, with their connections;
  \<open>bus\<close> lists what was handed to the message bus. The two locks order concurrent
  calls and have no part in a single one; logging is left out.
\<close>

record WorkerWSChannel =
  config :: WorkerWSConfig
  running :: bool
  cancel :: bool
  cancelled :: bool
  conn :: "conn option"
  identity :: workerWSIdentity
  closed :: "conn list"
  written :: "(conn \<times> any) list"
  identityFile :: diskFile
  bus :: "delivery list"

text \<open>
  What the library does with a value of dynamic type and this development does not
  spell out: \<^verbatim>\<open>json.Marshal\<close> (none for an error) and \<^verbatim>\<open>fmt.Sprintf("%v", v)\<close>. The
  functions that call them take them as a parameter.
\<close>

record golib =
  Marshal :: "any \<Rightarrow> string option"
  Sprintv :: "any \<Rightarrow> string"

subsection \<open>The embedded BaseChannel\<close>

text \<open>
  Modelled from the spec: \<^verbatim>\<open>BaseChannel.IsRunning\<close> and \<^verbatim>\<open>BaseChannel.setRunning\<close> are not
  among the files at hand; the running state is one flag, set by Start and cleared by
  Stop.
\<close>

definition IsRunning :: "WorkerWSChannel \<Rightarrow> bool" where
  "IsRunning c = running c"

definition setRunning :: "bool \<Rightarrow> WorkerWSChannel \<Rightarrow> WorkerWSChannel" where
  "setRunning b c = c\<lparr>running := b\<rparr>"

text \<open>
  Modelled from the spec: \<^verbatim>\<open>BaseChannel.IsAllowed\<close> is not among the files at hand; a
  sender passes if the configured allow-list is empty or contains the sender id.
\<close>

definition IsAllowed :: "WorkerWSChannel \<Rightarrow> string \<Rightarrow> bool" where
  "IsAllowed c sender \<longleftrightarrow> AllowFrom (config c) = [] \<or> sender \<in> set (AllowFrom (config c))"

text \<open>
  Modelled from the spec: \<^verbatim>\<open>BaseChannel.HandleMessage\<close> is not among the files at hand;
  it delivers sender, display name, content, attachments (none here) and metadata to
  the bus.
\<close>

definition HandleMessage ::
  "string \<Rightarrow> string \<Rightarrow> string \<Rightarrow> (string \<rightharpoonup> string) \<Rightarrow> WorkerWSChannel \<Rightarrow> WorkerWSChannel" where
  "HandleMessage sender chat text md c =
     c\<lparr>bus := bus c @ [\<lparr>senderID = sender, chatID = chat, content = text, metadata = md\<rparr>]\<rparr>"

subsection \<open>Configuration\<close>

text \<open>The methods that read nothing but \<^verbatim>\<open>c.config\<close> take the configuration.\<close>

definition cleanTags :: "WorkerWSConfig \<Rightarrow> string list" where
  "cleanTags cfg =
     foldl (\<lambda>tags tag. let tag = TrimSpace tag in if tag \<noteq> [] then tags @ [tag] else tags)
       [] (Tags cfg)"

definition validateConfig :: "WorkerWSConfig \<Rightarrow> error + unit" where
  "validateConfig cfg =
     (if TrimSpace (Address cfg) = [] then Inl AddressRequired
      else if TrimSpace (Role cfg) = [] then Inl RoleRequired
      else if Role cfg \<noteq> ''employee'' \<and> Role cfg \<noteq> ''boss'' then Inl RoleInvalid
      else if TrimSpace (Name cfg) = [] then Inl NameRequired
      else if length (cleanTags cfg) = 0 then Inl TagsRequired
      else Inr ())"

section \<open>Intervals\<close>

text \<open>
  \<^verbatim>\<open>time.Duration\<close> is an \<^verbatim>\<open>int64\<close> count of nanoseconds, \<^verbatim>\<open>time.Second\<close> is
  \<open>10\<^sup>9\<close> of them, and the product \<^verbatim>\<open>time.Duration(sec) * time.Second\<close> wraps around
  at 64 bits as every Go integer product does. \<^term>\<open>sint\<close> reads the result.
\<close>

type_synonym Duration = "64 word"

definition Second :: Duration where
  "Second = 1000000000"

definition reconnectInterval :: "WorkerWSConfig \<Rightarrow> Duration" where
  "reconnectInterval cfg =
     (let sec = ReconnectInterval cfg in
      if sec \<le> 0 then 0
      else let sec = (if sec < 5 then 5 else sec) in word_of_int sec * Second)"

definition pingInterval :: "WorkerWSConfig \<Rightarrow> Duration" where
  "pingInterval cfg =
     (let sec = PingInterval cfg;
          sec = (if sec \<le> 0 then 15 else sec);
          sec = (if sec < 5 then 5 else sec)
      in word_of_int sec * Second)"

text \<open>The largest number of whole seconds whose nanosecond count fits 63 bits.\<close>

definition maxDurationSeconds :: int where
  "maxDurationSeconds = 9223372036"

subsection \<open>Outbound envelopes\<close>

definition resolveTarget :: "string \<Rightarrow> any" where
  "resolveTarget chatID0 =
     (let chatID = TrimSpace chatID0 in
      if chatID = [] then AString ''*''
      else if chatID = ''*'' \<or> EqualFold chatID ''all'' then AString chatID
      else if Contains chatID (CHR '','') then
        (let parts = Split chatID (CHR '','');
             targets = foldl (\<lambda>targets p. let p = TrimSpace p in
                                if p \<noteq> [] then targets @ [p] else targets) [] parts
         in if length targets = 1 then AString (targets ! 0)
            else if length targets > 1 then AStrings targets
            else AString chatID)
      else AString chatID)"

definition buildPayload :: "string \<Rightarrow> any" where
  "buildPayload content0 =
     (let content = TrimSpace content0 in
      if content = [] then AMap [(''content'', AString [])]
      else (case unmarshalAny content of
              Some parsed \<Rightarrow> parsed
            | None \<Rightarrow> AMap [(''content'', AString content)]))"

text \<open>\<open>now\<close> is what \<^verbatim>\<open>time.Now().UnixNano()\<close> returns.\<close>

definition nextMsgID :: "int \<Rightarrow> string" where
  "nextMsgID now = ''mimiclaw-'' @ sprintf_d now"

definition getConn :: "WorkerWSChannel \<Rightarrow> conn option" where
  "getConn c = conn c"

text \<open>
  \<open>wr\<close> says whether \<^verbatim>\<open>conn.WriteMessage\<close> succeeds. The values the channel writes
  are maps of strings, string slices, integers and decoded JSON, which
  \<^verbatim>\<open>json.Marshal\<close> always encodes.
\<close>

definition writeJSONConn ::
  "bool \<Rightarrow> conn \<Rightarrow> any \<Rightarrow> WorkerWSChannel \<Rightarrow> (error + unit) \<times> WorkerWSChannel" where
  "writeJSONConn wr cn v c =
     (if wr then (Inr (), c\<lparr>written := written c @ [(cn, v)]\<rparr>) else (Inl WriteFailed, c))"

definition sendJSON ::
  "bool \<Rightarrow> any \<Rightarrow> WorkerWSChannel \<Rightarrow> (error + unit) \<times> WorkerWSChannel" where
  "sendJSON wr v c =
     (case getConn c of
        None \<Rightarrow> (Inl NotConnected, c)
      | Some cn \<Rightarrow> writeJSONConn wr cn v c)"

definition Send ::
  "int \<Rightarrow> bool \<Rightarrow> OutboundMessage \<Rightarrow> WorkerWSChannel \<Rightarrow> (error + unit) \<times> WorkerWSChannel" where
  "Send now wr msg c =
     (if \<not> IsRunning c then (Inl NotRunning, c)
      else
        let req = AMap [(''type'', AString ''message''),
                        (''to'', resolveTarget (ChatID msg)),
                        (''payload'', buildPayload (Content msg)),
                        (''msg_id'', AString (nextMsgID now))]
        in sendJSON wr req c)"

subsection \<open>Inbound envelopes\<close>

definition asString :: "golib \<Rightarrow> any \<Rightarrow> string" where
  "asString L v =
     (case v of
        AString val \<Rightarrow> val
      | ANumber val \<Rightarrow> val
      | AFloat64 val \<Rightarrow> sprintf_f0 val
      | AInt64 val \<Rightarrow> sprintf_d val
      | AInt val \<Rightarrow> sprintf_d val
      | ANil \<Rightarrow> []
      | _ \<Rightarrow> Sprintv L v)"

fun firstText :: "(string \<times> any) list \<Rightarrow> string list \<Rightarrow> string option" where
  "firstText p [] = None"
| "firstText p (key # keys) =
     (case mapGet p key of
        AString s \<Rightarrow> if TrimSpace s \<noteq> [] then Some s else firstText p keys
      | _ \<Rightarrow> firstText p keys)"

definition payloadToContent :: "golib \<Rightarrow> any \<Rightarrow> string" where
  "payloadToContent L payload =
     (case payload of
        ANil \<Rightarrow> []
      | AString p \<Rightarrow> p
      | AMap p \<Rightarrow>
          (case firstText p [''content'', ''message'', ''text'', ''result'', ''task''] of
             Some s \<Rightarrow> s
           | None \<Rightarrow> (case Marshal L payload of Some b \<Rightarrow> b | None \<Rightarrow> Sprintv L payload))
      | _ \<Rightarrow> (case Marshal L payload of Some b \<Rightarrow> b | None \<Rightarrow> Sprintv L payload))"

definition handleInboundRoutedMessage ::
  "golib \<Rightarrow> (string \<times> any) list \<Rightarrow> WorkerWSChannel \<Rightarrow> WorkerWSChannel" where
  "handleInboundRoutedMessage L msg c =
     (let fromID = asString L (mapGet msg ''from_id'');
          fromID = (if fromID = [] then ''worker_ws'' else fromID)
      in if \<not> IsAllowed c fromID then c
         else
           let text = payloadToContent L (mapGet msg ''payload'');
               text = (if text = [] then ''{}'' else text);
               md = Map.empty;
               md = (let v = asString L (mapGet msg ''msg_id'') in
                     if v \<noteq> [] then md(''msg_id'' \<mapsto> v) else md);
               md = (let v = asString L (mapGet msg ''from_role'') in
                     if v \<noteq> [] then md(''from_role'' \<mapsto> v) else md);
               md = (let v = asString L (mapGet msg ''to'') in
                     if v \<noteq> [] then md(''to'' \<mapsto> v) else md);
               md = (let ts = asString L (mapGet msg ''timestamp'') in
                     if ts \<noteq> [] then md(''timestamp'' \<mapsto> ts) else md)
           in HandleMessage fromID fromID text md c)"

subsection \<open>The identity file\<close>

definition setIdentityField ::
  "workerWSIdentity \<times> bool \<Rightarrow> string \<times> jvalue \<Rightarrow> workerWSIdentity \<times> bool" where
  "setIdentityField s m =
     (case s of (x, ok) \<Rightarrow> case m of (k, v) \<Rightarrow>
        let f = foldName k in
        if f = ''ID'' then (case stringField v (ID x) of (y, ok') \<Rightarrow> (x\<lparr>ID := y\<rparr>, ok \<and> ok'))
        else if f = ''KEY'' then
          (case stringField v (Key x) of (y, ok') \<Rightarrow> (x\<lparr>Key := y\<rparr>, ok \<and> ok'))
        else (x, ok))"

text \<open>\<^verbatim>\<open>json.Unmarshal(data, &id)\<close> for a \<^verbatim>\<open>workerWSIdentity\<close> that starts empty.\<close>

definition unmarshalIdentity :: "string \<Rightarrow> workerWSIdentity option" where
  "unmarshalIdentity data =
     (case structMembers data of
        None \<Rightarrow> None
      | Some ms \<Rightarrow>
          (case foldl setIdentityField (\<lparr>ID = [], Key = []\<rparr>, True) ms of
             (x, ok) \<Rightarrow> if ok then Some x else None))"

definition loadIdentity :: "WorkerWSChannel \<Rightarrow> (error + unit) \<times> WorkerWSChannel" where
  "loadIdentity c =
     (case identityFile c of
        NoFile \<Rightarrow> (Inr (), c)
      | Unreadable \<Rightarrow> (Inl ReadFileFailed, c)
      | File data \<Rightarrow>
          (case unmarshalIdentity data of
             None \<Rightarrow> (Inl IdentityInvalidJSON, c)
           | Some x \<Rightarrow>
               if ID x = [] \<or> Key x = [] then (Inr (), c)
               else (Inr (), c\<lparr>identity := x\<rparr>)))"

text \<open>
  A new channel over the disk as it is: nothing runs, nothing is held, and the identity
  is what \<open>loadIdentity\<close> finds, its error dropped.
\<close>

definition NewWorkerWSChannel :: "WorkerWSConfig \<Rightarrow> diskFile \<Rightarrow> WorkerWSChannel" where
  "NewWorkerWSChannel cfg disk =
     snd (loadIdentity
       \<lparr>config = cfg, running = False, cancel = False, cancelled = False, conn = None,
        identity = \<lparr>ID = [], Key = []\<rparr>, closed = [], written = [],
        identityFile = disk, bus = []\<rparr>)"

text \<open>
  \<^verbatim>\<open>json.MarshalIndent(id, "", "  ")\<close>: an object of the two fields on a line each,
  indented by two spaces.
\<close>

definition marshalIdentity :: "workerWSIdentity \<Rightarrow> string" where
  \<open>marshalIdentity x =
     ''{'' @ [CHR 0x0A] @ ''  "id": '' @ quoteJSON (ID x) @ '','' @ [CHR 0x0A] @
     ''  "key": '' @ quoteJSON (Key x) @ [CHR 0x0A] @ ''}''\<close>

text \<open>
  \<open>fsOK\<close> says whether the directory can be made and the file written; a write that
  fails is taken to leave the file as it was.
\<close>

definition saveIdentity :: "bool \<Rightarrow> WorkerWSChannel \<Rightarrow> (error + unit) \<times> WorkerWSChannel" where
  "saveIdentity fsOK c =
     (let x = identity c in
      if ID x = [] \<or> Key x = [] then (Inr (), c)
      else if fsOK then (Inr (), c\<lparr>identityFile := File (marshalIdentity x)\<rparr>)
      else (Inl WriteFileFailed, c))"

subsection \<open>The handshake\<close>

text \<open>\<open>now\<close> is what \<^verbatim>\<open>time.Now().UnixMilli()\<close> returns.\<close>

definition buildAuthMessage :: "int \<Rightarrow> WorkerWSChannel \<Rightarrow> (string \<times> any) list" where
  "buildAuthMessage now c =
     (let msg = [(''type'', AString ''auth''),
                 (''role'', AString (Role (config c))),
                 (''name'', AString (Name (config c))),
                 (''tags'', AStrings (cleanTags (config c))),
                 (''meta'', AMap [(''client'', AString ''mimiclaw''),
                                  (''timestamp'', AInt64 now)])];
          msg = (if TrimSpace (AuthKey (config c)) \<noteq> []
                 then mapSet ''authkey'' (AString (AuthKey (config c))) msg else msg);
          id = ID (identity c);
          key = Key (identity c)
      in if id \<noteq> [] \<and> key \<noteq> []
         then mapSet ''identity'' (AMap [(''id'', AString id), (''key'', AString key)]) msg
         else msg)"

definition setHelloField :: "string \<times> bool \<Rightarrow> string \<times> jvalue \<Rightarrow> string \<times> bool" where
  "setHelloField s m =
     (case s of (t, ok) \<Rightarrow> case m of (k, v) \<Rightarrow>
        if foldName k = ''TYPE'' then (case stringField v t of (y, ok') \<Rightarrow> (y, ok \<and> ok'))
        else (t, ok))"

definition unmarshalHello :: "string \<Rightarrow> string option" where
  "unmarshalHello data =
     (case structMembers data of
        None \<Rightarrow> None
      | Some ms \<Rightarrow>
          (case foldl setHelloField ([], True) ms of (t, ok) \<Rightarrow> if ok then Some t else None))"

text \<open>
  The reads of a connection are the results \<^verbatim>\<open>ReadMessage\<close> will give, in order; when
  they are used up the next call ends in the error of the read deadline. \<open>awaitHello\<close>
  returns the reads that are left.
\<close>

definition awaitHello :: "read list \<Rightarrow> error + read list" where
  "awaitHello reads =
     (case reads of
        [] \<Rightarrow> Inl WaitingHelloFailed
      | ReadError # _ \<Rightarrow> Inl WaitingHelloFailed
      | ReadData data # rest \<Rightarrow>
          (case unmarshalHello data of
             None \<Rightarrow> Inl HelloInvalidJSON
           | Some t \<Rightarrow> if t \<noteq> ''hello'' then Inl (ExpectedHello t) else Inr rest))"

record authBase =
  base_Type :: string
  base_Code :: string
  base_Message :: string

record workerWSAuthOK =
  ok_Type :: string
  ok_ID :: string
  ok_Key :: string
  ok_Role :: string
  ok_Reconnected :: bool

definition setBaseField :: "authBase \<times> bool \<Rightarrow> string \<times> jvalue \<Rightarrow> authBase \<times> bool" where
  "setBaseField s m =
     (case s of (x, ok) \<Rightarrow> case m of (k, v) \<Rightarrow>
        let f = foldName k in
        if f = ''TYPE'' then
          (case stringField v (base_Type x) of (y, ok') \<Rightarrow> (x\<lparr>base_Type := y\<rparr>, ok \<and> ok'))
        else if f = ''CODE'' then
          (case stringField v (base_Code x) of (y, ok') \<Rightarrow> (x\<lparr>base_Code := y\<rparr>, ok \<and> ok'))
        else if f = ''MESSAGE'' then
          (case stringField v (base_Message x) of
             (y, ok') \<Rightarrow> (x\<lparr>base_Message := y\<rparr>, ok \<and> ok'))
        else (x, ok))"

definition unmarshalBase :: "string \<Rightarrow> authBase option" where
  "unmarshalBase data =
     (case structMembers data of
        None \<Rightarrow> None
      | Some ms \<Rightarrow>
          (case foldl setBaseField
                  (\<lparr>base_Type = [], base_Code = [], base_Message = []\<rparr>, True) ms of
             (x, ok) \<Rightarrow> if ok then Some x else None))"

definition setAuthOKField ::
  "workerWSAuthOK \<times> bool \<Rightarrow> string \<times> jvalue \<Rightarrow> workerWSAuthOK \<times> bool" where
  "setAuthOKField s m =
     (case s of (x, ok) \<Rightarrow> case m of (k, v) \<Rightarrow>
        let f = foldName k in
        if f = ''TYPE'' then
          (case stringField v (ok_Type x) of (y, ok') \<Rightarrow> (x\<lparr>ok_Type := y\<rparr>, ok \<and> ok'))
        else if f = ''ID'' then
          (case stringField v (ok_ID x) of (y, ok') \<Rightarrow> (x\<lparr>ok_ID := y\<rparr>, ok \<and> ok'))
        else if f = ''KEY'' then
          (case stringField v (ok_Key x) of (y, ok') \<Rightarrow> (x\<lparr>ok_Key := y\<rparr>, ok \<and> ok'))
        else if f = ''ROLE'' then
          (case stringField v (ok_Role x) of (y, ok') \<Rightarrow> (x\<lparr>ok_Role := y\<rparr>, ok \<and> ok'))
        else if f = ''RECONNECTED'' then
          (case boolField v (ok_Reconnected x) of
             (y, ok') \<Rightarrow> (x\<lparr>ok_Reconnected := y\<rparr>, ok \<and> ok'))
        else (x, ok))"

definition unmarshalAuthOK :: "string \<Rightarrow> workerWSAuthOK option" where
  "unmarshalAuthOK data =
     (case structMembers data of
        None \<Rightarrow> None
      | Some ms \<Rightarrow>
          (case foldl setAuthOKField
                  (\<lparr>ok_Type = [], ok_ID = [], ok_Key = [], ok_Role = [],
                    ok_Reconnected = False\<rparr>, True) ms of
             (x, ok) \<Rightarrow> if ok then Some x else None))"

fun awaitAuthOK :: "read list \<Rightarrow> error + workerWSAuthOK" where
  "awaitAuthOK [] = Inl WaitingAuthOKFailed"
| "awaitAuthOK (ReadError # rest) = Inl WaitingAuthOKFailed"
| "awaitAuthOK (ReadData data # rest) =
     (case unmarshalBase data of
        None \<Rightarrow> Inl AuthResponseInvalidJSON
      | Some base \<Rightarrow>
          if base_Type base = ''auth_ok'' then
            (case unmarshalAuthOK data of
               None \<Rightarrow> Inl ParseAuthOKFailed
             | Some ok \<Rightarrow>
                 if ok_ID ok = [] \<or> ok_Key ok = [] then Inl AuthOKMissingIDKey
                 else Inr ok)
          else if base_Type base = ''error'' then
            Inl (AuthRejected (base_Message base)
                   (if base_Code base = [] then ''auth_failed'' else base_Code base))
          else awaitAuthOK rest)"

definition closeConn :: "conn \<Rightarrow> WorkerWSChannel \<Rightarrow> WorkerWSChannel" where
  "closeConn cn c = c\<lparr>closed := cn # closed c\<rparr>"

text \<open>
  One attempt: \<open>dial\<close> is the connection the dialer returns (none for an error),
  \<open>reads\<close> what the peer sends on it, \<open>wr\<close> whether the auth frame can be written. The
  read loop the attempt starts at its end runs on its own and is not part of it.
\<close>

definition connectAndAuthenticate ::
  "conn option \<Rightarrow> read list \<Rightarrow> bool \<Rightarrow> bool \<Rightarrow> int \<Rightarrow> WorkerWSChannel
     \<Rightarrow> (error + unit) \<times> WorkerWSChannel" where
  "connectAndAuthenticate dial reads wr fsOK now c =
     (case dial of
        None \<Rightarrow> (Inl DialFailed, c)
      | Some cn \<Rightarrow>
          (case awaitHello reads of
             Inl e \<Rightarrow> (Inl e, closeConn cn c)
           | Inr rest \<Rightarrow>
               (case writeJSONConn wr cn (AMap (buildAuthMessage now c)) c of
                  (Inl e, c1) \<Rightarrow> (Inl SendAuthFailed, closeConn cn c1)
                | (Inr u, c1) \<Rightarrow>
                    (case awaitAuthOK rest of
                       Inl e \<Rightarrow> (Inl e, closeConn cn c1)
                     | Inr authOK \<Rightarrow>
                         let c2 = (case conn c1 of None \<Rightarrow> c1 | Some old \<Rightarrow> closeConn old c1);
                             c3 = c2\<lparr>conn := Some cn,
                                     identity := \<lparr>ID = ok_ID authOK, Key = ok_Key authOK\<rparr>\<rparr>
                         in (Inr (), snd (saveIdentity fsOK c3))))))"

subsection \<open>The session\<close>

text \<open>
  \<^verbatim>\<open>Close\<close> on the nil connection dereferences it; the comparison \<^verbatim>\<open>c.conn == conn\<close>
  lets that happen only when both are nil.
\<close>

definition clearConnIfCurrent :: "conn option \<Rightarrow> WorkerWSChannel \<Rightarrow> error + WorkerWSChannel" where
  "clearConnIfCurrent cn c =
     (if conn c = cn then
        (case conn c of
           None \<Rightarrow> Inl NilConnPanic
         | Some h \<Rightarrow> Inr ((closeConn h c)\<lparr>conn := None\<rparr>))
      else Inr c)"

definition handleServerMessage :: "golib \<Rightarrow> bool \<Rightarrow> string \<Rightarrow> WorkerWSChannel \<Rightarrow> WorkerWSChannel" where
  "handleServerMessage L fsOK data c =
     (case unmarshalMap data of
        None \<Rightarrow> c
      | Some msg \<Rightarrow>
          let msgType = (case mapGet msg ''type'' of AString s \<Rightarrow> s | _ \<Rightarrow> []) in
          if msgType = ''pong'' \<or> msgType = ''health_report_ack'' then c
          else if msgType = ''delivery_ack'' then c
          else if msgType = ''error'' then c
          else if msgType = ''system'' then c
          else if msgType = ''message'' then handleInboundRoutedMessage L msg c
          else if msgType = ''auth_ok'' then
            (let id = asString L (mapGet msg ''id'') in
             if id \<noteq> [] then
               (let key = asString L (mapGet msg ''key'');
                    c1 = c\<lparr>identity := \<lparr>ID = id, Key = key\<rparr>\<rparr>
                in snd (saveIdentity fsOK c1))
             else c)
          else c)"

text \<open>
  The read loop of connection \<open>cn\<close> over the reads that are left to it. It ends when
  the channel is cancelled or a read fails; with no read left it waits.
\<close>

fun readLoop ::
  "golib \<Rightarrow> bool \<Rightarrow> conn \<Rightarrow> read list \<Rightarrow> WorkerWSChannel \<Rightarrow> error + WorkerWSChannel" where
  "readLoop L fsOK cn [] c = Inr c"
| "readLoop L fsOK cn (r # rs) c =
     (if cancelled c then Inr c
      else (case r of
              ReadError \<Rightarrow> clearConnIfCurrent (Some cn) c
            | ReadData data \<Rightarrow> readLoop L fsOK cn rs (handleServerMessage L fsOK data c)))"

text \<open>\<^verbatim>\<open>Stop\<close> returns no error.\<close>

definition Stop :: "WorkerWSChannel \<Rightarrow> WorkerWSChannel" where
  "Stop c =
     (let c1 = setRunning False c;
          c2 = (if cancel c1 then c1\<lparr>cancelled := True\<rparr> else c1)
      in case conn c2 of
           None \<Rightarrow> c2
         | Some h \<Rightarrow> (closeConn h c2)\<lparr>conn := None\<rparr>)"

section \<open>The specification's words, and examples\<close>

text \<open>
  The resolution in the words of the specification: empty gives the broadcast marker;
  the star, and the word all in any case, pass through; a comma-separated string is
  split, trimmed, and its empty items dropped, one item left being a scalar, several an
  array, none the trimmed string; anything else is the trimmed string.
\<close>

definition resolveTarget_spec :: "string \<Rightarrow> any" where
  "resolveTarget_spec s =
     (let t = TrimSpace s; items = filter (\<lambda>p. p \<noteq> []) (map TrimSpace (Split t (CHR '','')))
      in if t = [] then AString ''*''
         else if t = ''*'' \<or> map toLowerASCII t = ''all'' then AString t
         else if CHR '','' \<in> set t then
           (case items of [] \<Rightarrow> AString t | [x] \<Rightarrow> AString x | _ \<Rightarrow> AStrings items)
         else AString t)"

text \<open>
  A frame is ignored when it decodes into the envelope of type, code and message and
  its type is neither \<open>auth_ok\<close> nor \<open>error\<close>.
\<close>

definition ignoredFrame :: "string \<Rightarrow> bool" where
  "ignoredFrame f \<longleftrightarrow>
     (case unmarshalBase f of
        None \<Rightarrow> False
      | Some b \<Rightarrow> base_Type b \<noteq> ''auth_ok'' \<and> base_Type b \<noteq> ''error'')"

text \<open>
  What \<^verbatim>\<open>json.Unmarshal\<close> accepts for a field: a string or \<^verbatim>\<open>null\<close> for a field of
  type \<^verbatim>\<open>string\<close>, a boolean or \<^verbatim>\<open>null\<close> for one of type \<^verbatim>\<open>bool\<close>. A member of an object
  fits the envelope, or the \<open>auth_ok\<close> record, when its name is not that of a field, in
  any case of the letters, or its value is one the field accepts.
\<close>

definition fitsString :: "jvalue \<Rightarrow> bool" where
  "fitsString v \<longleftrightarrow> (case v of JString s \<Rightarrow> True | JNull \<Rightarrow> True | _ \<Rightarrow> False)"

definition fitsBool :: "jvalue \<Rightarrow> bool" where
  "fitsBool v \<longleftrightarrow> (case v of JBool b \<Rightarrow> True | JNull \<Rightarrow> True | _ \<Rightarrow> False)"

definition fitsBase :: "string \<times> jvalue \<Rightarrow> bool" where
  "fitsBase m \<longleftrightarrow>
     (case m of (k, v) \<Rightarrow>
        if foldName k = ''TYPE'' \<or> foldName k = ''CODE'' \<or> foldName k = ''MESSAGE''
        then fitsString v else True)"

definition fitsAuthOK :: "string \<times> jvalue \<Rightarrow> bool" where
  "fitsAuthOK m \<longleftrightarrow>
     (case m of (k, v) \<Rightarrow>
        if foldName k = ''TYPE'' \<or> foldName k = ''ID'' \<or> foldName k = ''KEY'' \<or>
           foldName k = ''ROLE'' then fitsString v
        else if foldName k = ''RECONNECTED'' then fitsBool v else True)"

text \<open>An identity is whole when both fields are empty or both are set.\<close>

definition wholeIdentity :: "workerWSIdentity \<Rightarrow> bool" where
  "wholeIdentity x \<longleftrightarrow> (ID x = [] \<and> Key x = []) \<or> (ID x \<noteq> [] \<and> Key x \<noteq> [])"

text \<open>A channel that was just made, with the configuration of the tests.\<close>

definition idleChannel :: WorkerWSChannel where
  "idleChannel =
     \<lparr>config = \<lparr>Address = ''ws://127.0.0.1:3001/ws'', Role = ''employee'',
                 Name = ''Researcher-1'', Tags = [''research''], AuthKey = [],
                 IdentityFile = [], ReconnectInterval = 5, PingInterval = 15,
                 AllowFrom = []\<rparr>,
       running = False, cancel = False, cancelled = False, conn = None,
       identity = \<lparr>ID = [], Key = []\<rparr>, closed = [], written = [],
       identityFile = NoFile, bus = []\<rparr>"

text \<open>
  A library that encodes nothing and prints a question mark, and a routed message
  whose \<open>msg_id\<close> is the number 2.5 and whose \<open>timestamp\<close> is the number 1700000000000.
\<close>

definition plainLib :: golib where
  "plainLib = \<lparr>Marshal = (\<lambda>v. None), Sprintv = (\<lambda>v. ''?'')\<rparr>"

definition routedExample :: "(string \<times> any) list" where
  "routedExample =
     [(''type'', AString ''message''), (''from_id'', AString ''boss-1''),
      (''payload'', AString ''hi''),
      (''msg_id'', AFloat64 (Float64 False 5 1)),
      (''timestamp'', AFloat64 (Float64 False 1700000000000 0))]"

section \<open>Evaluation\<close>

text \<open>The equations that evaluate the library functions on a given text.\<close>

lemmas trim_eval = TrimSpace_def spaceRunes_def TrimLeftRunes.simps

lemmas json_eval =
  parseJSON_def scanStep_def beginValue_def beginKey_def closeObject_def closeArray_def
  putValue_def isJSONSpace_def isDigit_def isNumberByte_def byte_def maxNestingDepth_def
  validNumber_def validFraction_def validExponent_def
  unmarshalAny_def unmarshalMap_def structMembers_def mapSet_def mapGet_def
  stringField_def boolField_def toUpperASCII_def

lemmas float_eval =
  parseFloat_def nearestFloat64_def floorLog2_def bitlen.simps roundHalfEven_def
  digitsVal_def reduce.simps sprintf_f0_def sprintf_d_def decimal.simps digitByte_def

section \<open>Configuration: results\<close>

lemma keepNonEmpty_foldl:
  "foldl (\<lambda>acc p. let p = TrimSpace p in if p \<noteq> [] then acc @ [p] else acc) acc xs
     = acc @ filter (\<lambda>p. p \<noteq> []) (map TrimSpace xs)"
  by (induction xs arbitrary: acc) (simp_all add: Let_def)

lemma cleanTags_eq: "cleanTags cfg = filter (\<lambda>p. p \<noteq> []) (map TrimSpace (Tags cfg))"
  by (simp add: cleanTags_def keepNonEmpty_foldl)

lemma cleanTags_empty_iff:
  "cleanTags cfg = [] \<longleftrightarrow> (\<forall>t \<in> set (Tags cfg). TrimSpace t = [])"
  by (auto simp add: cleanTags_eq filter_empty_conv)

lemma TrimSpace_roles:
  "TrimSpace ''employee'' = ''employee''" "TrimSpace ''boss'' = ''boss''"
  by (simp_all add: trim_eval)

text \<open>
  C7. \<open>validateConfig\<close> succeeds exactly for the configurations that have all four of:
  an address that is not blank, a role equal to employee or boss, a name that is not
  blank, and a tag that is not empty once trimmed. So it fails for every configuration
  that misses one of them, and the second conjunct says that a failure is one of the
  five configuration errors.
\<close>

theorem validateConfig_iff:
  "(validateConfig cfg = Inr () \<longleftrightarrow>
      TrimSpace (Address cfg) \<noteq> [] \<and> (Role cfg = ''employee'' \<or> Role cfg = ''boss'') \<and>
      TrimSpace (Name cfg) \<noteq> [] \<and> (\<exists>t \<in> set (Tags cfg). TrimSpace t \<noteq> [])) \<and>
   (validateConfig cfg = Inr () \<or>
    validateConfig cfg \<in> Inl ` {AddressRequired, RoleRequired, RoleInvalid, NameRequired,
                                 TagsRequired})"
proof
  show "validateConfig cfg = Inr () \<longleftrightarrow>
      TrimSpace (Address cfg) \<noteq> [] \<and> (Role cfg = ''employee'' \<or> Role cfg = ''boss'') \<and>
      TrimSpace (Name cfg) \<noteq> [] \<and> (\<exists>t \<in> set (Tags cfg). TrimSpace t \<noteq> [])"
    using TrimSpace_roles by (auto simp add: validateConfig_def cleanTags_empty_iff)
  show "validateConfig cfg = Inr () \<or>
    validateConfig cfg \<in> Inl ` {AddressRequired, RoleRequired, RoleInvalid, NameRequired,
                                 TagsRequired}"
    by (simp add: validateConfig_def)
qed

lemma TrimSpace_test_config:
  "TrimSpace ''ws://127.0.0.1:3001/ws'' = ''ws://127.0.0.1:3001/ws''"
  "TrimSpace ''Researcher-1'' = ''Researcher-1''"
  "TrimSpace ''research'' = ''research''"
  "TrimSpace ''  '' = []"
  by (simp_all add: trim_eval)

theorem validateConfig_witness:
  "validateConfig \<lparr>Address = ''ws://127.0.0.1:3001/ws'', Role = ''employee'',
      Name = ''Researcher-1'', Tags = [''research''], AuthKey = [], IdentityFile = [],
      ReconnectInterval = 0, PingInterval = 0, AllowFrom = []\<rparr> = Inr () \<and>
   validateConfig \<lparr>Address = ''ws://127.0.0.1:3001/ws'', Role = ''employee'',
      Name = ''Researcher-1'', Tags = [''  ''], AuthKey = [], IdentityFile = [],
      ReconnectInterval = 0, PingInterval = 0, AllowFrom = []\<rparr> \<noteq> Inr ()"
  using validateConfig_iff [of "\<lparr>Address = ''ws://127.0.0.1:3001/ws'', Role = ''employee'',
      Name = ''Researcher-1'', Tags = [''research''], AuthKey = [], IdentityFile = [],
      ReconnectInterval = 0, PingInterval = 0, AllowFrom = []\<rparr>"]
    validateConfig_iff [of "\<lparr>Address = ''ws://127.0.0.1:3001/ws'', Role = ''employee'',
      Name = ''Researcher-1'', Tags = [''  ''], AuthKey = [], IdentityFile = [],
      ReconnectInterval = 0, PingInterval = 0, AllowFrom = []\<rparr>"]
  by (simp add: TrimSpace_test_config)

section \<open>Outbound targets: results\<close>

lemma fold_all: "map toLowerASCII ''all'' = ''all''"
  by (simp add: toLowerASCII_def byte_def)

lemma resolveTarget_refines: "resolveTarget s = resolveTarget_spec s"
proof -
  have sel: "(if length xs = 1 then AString (xs ! 0)
              else if length xs > 1 then AStrings xs else AString t)
      = (case xs of [] \<Rightarrow> AString t | [x] \<Rightarrow> AString x | _ \<Rightarrow> AStrings xs)" for xs t
    by (cases xs; simp split: list.splits)
  show ?thesis
    unfolding resolveTarget_def resolveTarget_spec_def keepNonEmpty_foldl sel
      EqualFold_def fold_all Contains_def
    by (simp add: Let_def)
qed

lemma TrimSpace_targets:
  "TrimSpace [] = []" "TrimSpace ''a'' = ''a''" "TrimSpace ''b'' = ''b''"
  "TrimSpace ''a,b'' = ''a,b''" "TrimSpace ''a, ,b'' = ''a, ,b''" "TrimSpace '' '' = []"
  "TrimSpace ''all'' = ''all''"
  by (simp_all add: trim_eval)

lemma resolveTarget_spec_examples:
  "resolveTarget_spec [] = AString ''*''"
  "resolveTarget_spec ''all'' = AString ''all''"
  "resolveTarget_spec ''a,b'' = AStrings [''a'', ''b'']"
  "resolveTarget_spec ''a'' = AString ''a''"
  "resolveTarget_spec ''a, ,b'' = AStrings [''a'', ''b'']"
  by (simp_all add: resolveTarget_spec_def Let_def TrimSpace_targets toLowerASCII_def byte_def)

text \<open>
  C6. \<open>resolveTarget\<close> computes the resolution the specification describes, for every
  string, and gives the five results the specification lists.
\<close>

theorem resolveTarget_resolves:
  "resolveTarget s = resolveTarget_spec s \<and>
   resolveTarget [] = AString ''*'' \<and>
   resolveTarget ''all'' = AString ''all'' \<and>
   resolveTarget ''a,b'' = AStrings [''a'', ''b''] \<and>
   resolveTarget ''a'' = AString ''a'' \<and>
   resolveTarget ''a, ,b'' = AStrings [''a'', ''b'']"
  by (simp add: resolveTarget_refines resolveTarget_spec_examples)

section \<open>Intervals: results\<close>

lemma sint_seconds:
  assumes "0 \<le> n" "n \<le> maxDurationSeconds"
  shows "sint (word_of_int n * Second :: Duration) = n * 1000000000"
proof -
  have eq: "(word_of_int n * Second :: Duration) = word_of_int (n * 1000000000)"
    by (simp add: Second_def)
  have lo: "- (2 ^ 63) \<le> n * 1000000000"
    using assms(1) by simp
  have "n * 1000000000 \<le> 9223372036 * 1000000000"
    using assms(2) by (simp add: maxDurationSeconds_def)
  then have hi: "n * 1000000000 < 2 ^ 63"
    by simp
  have "sint (word_of_int (n * 1000000000) :: Duration)
          = signed_take_bit 63 (n * 1000000000)"
    unfolding sint_sbintrunc' by simp
  also have "\<dots> = n * 1000000000"
    using lo hi by (rule signed_take_bit_int_eq_self)
  finally show ?thesis
    by (simp only: eq)
qed

text \<open>
  C8, as the code has it. For every configured number of seconds up to
  \<^term>\<open>maxDurationSeconds\<close>: the reconnect interval is 0 when the configured value is at
  most 0 and otherwise \<open>max configured 5\<close> seconds; the ping interval is 15 seconds when
  the configured value is at most 0 and otherwise \<open>max configured 5\<close> seconds, so it is at
  least 5 seconds. Durations are read in nanoseconds.
\<close>

theorem intervals_resolve:
  "(ReconnectInterval cfg \<le> maxDurationSeconds \<longrightarrow>
      sint (reconnectInterval cfg) =
        (if ReconnectInterval cfg \<le> 0 then 0
         else max (ReconnectInterval cfg) 5 * 1000000000)) \<and>
   (PingInterval cfg \<le> maxDurationSeconds \<longrightarrow>
      sint (pingInterval cfg) =
        (if PingInterval cfg \<le> 0 then 15 * 1000000000
         else max (PingInterval cfg) 5 * 1000000000) \<and>
      5 * 1000000000 \<le> sint (pingInterval cfg))"
proof (intro conjI impI)
  assume b: "ReconnectInterval cfg \<le> maxDurationSeconds"
  show "sint (reconnectInterval cfg) =
        (if ReconnectInterval cfg \<le> 0 then 0
         else max (ReconnectInterval cfg) 5 * 1000000000)"
  proof (cases "ReconnectInterval cfg \<le> 0")
    case True
    then show ?thesis by (simp add: reconnectInterval_def)
  next
    case False
    let ?n = "max (ReconnectInterval cfg) 5"
    have "0 \<le> ?n" "?n \<le> maxDurationSeconds"
      using b by (simp_all add: maxDurationSeconds_def)
    then have "sint (word_of_int ?n * Second :: Duration) = ?n * 1000000000"
      by (rule sint_seconds)
    moreover have "reconnectInterval cfg = word_of_int ?n * Second"
      using False by (simp add: reconnectInterval_def Let_def max_def)
    ultimately show ?thesis using False by simp
  qed
next
  assume b: "PingInterval cfg \<le> maxDurationSeconds"
  let ?n = "if PingInterval cfg \<le> 0 then 15 else max (PingInterval cfg) 5"
  have rng: "0 \<le> ?n" "?n \<le> maxDurationSeconds"
    using b by (auto simp add: maxDurationSeconds_def)
  have "pingInterval cfg = word_of_int ?n * Second"
    by (simp add: pingInterval_def Let_def max_def)
  then have val: "sint (pingInterval cfg) = ?n * 1000000000"
    using sint_seconds [OF rng] by simp
  show "sint (pingInterval cfg) =
        (if PingInterval cfg \<le> 0 then 15 * 1000000000
         else max (PingInterval cfg) 5 * 1000000000)"
    using val by simp
  have "5 \<le> ?n" by simp
  then show "5 * 1000000000 \<le> sint (pingInterval cfg)"
    using val by simp
qed

theorem intervals_resolve_witness:
  "sint (reconnectInterval \<lparr>Address = [], Role = [], Name = [], Tags = [], AuthKey = [],
      IdentityFile = [], ReconnectInterval = 3, PingInterval = 0, AllowFrom = []\<rparr>) = 5000000000 \<and>
   sint (pingInterval \<lparr>Address = [], Role = [], Name = [], Tags = [], AuthKey = [],
      IdentityFile = [], ReconnectInterval = 3, PingInterval = 0, AllowFrom = []\<rparr>) = 15000000000"
  using intervals_resolve [of "\<lparr>Address = [], Role = [], Name = [], Tags = [], AuthKey = [],
      IdentityFile = [], ReconnectInterval = 3, PingInterval = 0, AllowFrom = []\<rparr>"]
  by (simp add: maxDurationSeconds_def)

text \<open>
  The bound is needed: one second more and the nanosecond count no longer fits, the
  product wraps, and the ping interval comes out negative, neither
  \<open>max configured 5\<close> seconds nor at least 5 seconds.
\<close>

theorem pingInterval_overflow:
  "sint (pingInterval \<lparr>Address = [], Role = [], Name = [], Tags = [], AuthKey = [],
      IdentityFile = [], ReconnectInterval = 0, PingInterval = 9223372037, AllowFrom = []\<rparr>)
     = - 9223372036709551616 \<and>
   sint (pingInterval \<lparr>Address = [], Role = [], Name = [], Tags = [], AuthKey = [],
      IdentityFile = [], ReconnectInterval = 0, PingInterval = 9223372037, AllowFrom = []\<rparr>)
     \<noteq> max 9223372037 5 * 1000000000 \<and>
   \<not> 5 * 1000000000 \<le> sint (pingInterval \<lparr>Address = [], Role = [], Name = [], Tags = [],
      AuthKey = [], IdentityFile = [], ReconnectInterval = 0, PingInterval = 9223372037,
      AllowFrom = []\<rparr>)"
  by (simp add: pingInterval_def Second_def)

section \<open>The connection handle: results\<close>

text \<open>
  C3. \<open>clearConnIfCurrent\<close> with a connection \<open>h\<close>: when the channel holds \<open>h\<close>, it
  closes \<open>h\<close> and holds none afterwards, all else as before; when the channel holds
  another connection or none, the channel is left as it is. The read loop of \<open>h\<close> that
  meets a read error does exactly this, so a loop whose connection has been replaced
  changes nothing.
\<close>

theorem clearConnIfCurrent_frame:
  "clearConnIfCurrent (Some h) c =
     Inr (if conn c = Some h then c\<lparr>closed := h # closed c, conn := None\<rparr> else c) \<and>
   readLoop L fsOK h (ReadError # rs) c =
     Inr (if cancelled c then c
          else if conn c = Some h then c\<lparr>closed := h # closed c, conn := None\<rparr> else c)"
  by (simp add: clearConnIfCurrent_def closeConn_def)

section \<open>Send: results\<close>

text \<open>
  C5. A \<open>Send\<close> on a channel that is not running returns the not-running error, and a
  \<open>Send\<close> on a running channel that holds no connection returns the not-connected
  error. In both cases the channel is as before: nothing was written, on any
  connection, and nothing is kept for a later attempt.
\<close>

theorem Send_fails_fast:
  "(\<not> IsRunning c \<longrightarrow> Send now wr msg c = (Inl NotRunning, c)) \<and>
   (IsRunning c \<and> conn c = None \<longrightarrow> Send now wr msg c = (Inl NotConnected, c))"
  by (simp add: Send_def sendJSON_def getConn_def Let_def)

theorem Send_fails_fast_witness:
  "Send 1 True \<lparr>ChatID = ''peer-2'', Content = ''hi''\<rparr> idleChannel
     = (Inl NotRunning, idleChannel) \<and>
   Send 1 True \<lparr>ChatID = ''peer-2'', Content = ''hi''\<rparr> (idleChannel\<lparr>running := True\<rparr>)
     = (Inl NotConnected, idleChannel\<lparr>running := True\<rparr>)"
  using Send_fails_fast [of idleChannel 1 True "\<lparr>ChatID = ''peer-2'', Content = ''hi''\<rparr>"]
    Send_fails_fast [of "idleChannel\<lparr>running := True\<rparr>" 1 True
      "\<lparr>ChatID = ''peer-2'', Content = ''hi''\<rparr>"]
  by (simp add: IsRunning_def idleChannel_def)

section \<open>Stop: results\<close>

lemma buildAuthMessage_reads:
  "config c' = config c \<Longrightarrow> identity c' = identity c
     \<Longrightarrow> buildAuthMessage now c' = buildAuthMessage now c"
  by (simp add: buildAuthMessage_def cong: if_cong)

lemma Stop_eq:
  "Stop c = c\<lparr>running := False, cancelled := (cancelled c \<or> cancel c), conn := None,
             closed := (case conn c of None \<Rightarrow> closed c | Some h \<Rightarrow> h # closed c)\<rparr>"
  by (cases "conn c") (auto simp add: Stop_def setRunning_def closeConn_def Let_def)

lemma mapGet_mapSet: "mapGet (mapSet k v m) k = v"
  by (simp add: mapGet_def mapSet_def update_conv')

lemma buildAuthMessage_identity:
  "ID (identity c) \<noteq> [] \<Longrightarrow> Key (identity c) \<noteq> []
     \<Longrightarrow> mapGet (buildAuthMessage now c) ''identity''
           = AMap [(''id'', AString (ID (identity c))), (''key'', AString (Key (identity c)))]"
  by (simp add: buildAuthMessage_def Let_def mapGet_mapSet)

lemma saveIdentity_written: "written (snd (saveIdentity fsOK c)) = written c"
  by (simp add: saveIdentity_def Let_def)

text \<open>An attempt that gets its hello and can write sends the auth message, and no other frame.\<close>

lemma connectAndAuthenticate_sends_auth:
  "awaitHello reads = Inr rest \<Longrightarrow>
     written (snd (connectAndAuthenticate (Some cn) reads True fsOK now c))
       = written c @ [(cn, AMap (buildAuthMessage now c))]"
  by (auto simp add: connectAndAuthenticate_def writeJSONConn_def closeConn_def Let_def
        saveIdentity_written split: sum.splits option.splits)

text \<open>
  C9. \<open>Stop\<close> changes the running flag, the cancellation signal and the connection
  handle (which it closes), and nothing else: the identity in memory, the identity
  file, the configuration, the frames written and the bus are as before. So the auth
  message built after \<open>Stop\<close> is the one built before it, and it carries the identity
  that was issued, under the key \<open>identity\<close>, whenever both its fields are set. It is
  the frame the next connection attempt sends once it has its hello.
\<close>

theorem Stop_frame:
  "Stop c = c\<lparr>running := False, cancelled := (cancelled c \<or> cancel c), conn := None,
             closed := (case conn c of None \<Rightarrow> closed c | Some h \<Rightarrow> h # closed c)\<rparr> \<and>
   identity (Stop c) = identity c \<and>
   identityFile (Stop c) = identityFile c \<and>
   buildAuthMessage now (Stop c) = buildAuthMessage now c \<and>
   (ID (identity c) \<noteq> [] \<and> Key (identity c) \<noteq> [] \<longrightarrow>
      mapGet (buildAuthMessage now (Stop c)) ''identity''
        = AMap [(''id'', AString (ID (identity c))), (''key'', AString (Key (identity c)))]) \<and>
   (awaitHello reads = Inr rest \<longrightarrow>
      written (snd (connectAndAuthenticate (Some cn) reads True fsOK now (Stop c)))
        = written c @ [(cn, AMap (buildAuthMessage now c))])"
proof -
  have frame: "identity (Stop c) = identity c" "identityFile (Stop c) = identityFile c"
    "config (Stop c) = config c" "written (Stop c) = written c"
    by (simp_all add: Stop_eq)
  have same: "buildAuthMessage now (Stop c) = buildAuthMessage now c"
    using frame by (intro buildAuthMessage_reads) simp_all
  have sent: "written (snd (connectAndAuthenticate (Some cn) reads True fsOK now (Stop c)))
        = written c @ [(cn, AMap (buildAuthMessage now c))]" if "awaitHello reads = Inr rest"
    using connectAndAuthenticate_sends_auth [OF that, of cn fsOK now "Stop c"] frame same
    by simp
  show ?thesis
    using frame same sent buildAuthMessage_identity [of c now] Stop_eq [of c] by simp
qed

theorem Stop_frame_witness:
  "mapGet (buildAuthMessage 1700000000000
            (Stop (idleChannel\<lparr>running := True, cancel := True, conn := Some 7,
                               identity := \<lparr>ID = ''w1'', Key = ''k1''\<rparr>\<rparr>))) ''identity''
     = AMap [(''id'', AString ''w1''), (''key'', AString ''k1'')] \<and>
   conn (Stop (idleChannel\<lparr>running := True, cancel := True, conn := Some 7,
                               identity := \<lparr>ID = ''w1'', Key = ''k1''\<rparr>\<rparr>)) = None"
proof -
  let ?c = "idleChannel\<lparr>running := True, cancel := True, conn := Some 7,
                        identity := \<lparr>ID = ''w1'', Key = ''k1''\<rparr>\<rparr>"
  have s: "Stop ?c = ?c\<lparr>running := False, cancelled := (cancelled ?c \<or> cancel ?c),
             conn := None,
             closed := (case conn ?c of None \<Rightarrow> closed ?c | Some h \<Rightarrow> h # closed ?c)\<rparr>"
    and m: "ID (identity ?c) \<noteq> [] \<and> Key (identity ?c) \<noteq> [] \<longrightarrow>
      mapGet (buildAuthMessage 1700000000000 (Stop ?c)) ''identity''
        = AMap [(''id'', AString (ID (identity ?c))), (''key'', AString (Key (identity ?c)))]"
    using Stop_frame [where c = ?c and now = 1700000000000] by blast+
  have i: "identity ?c = \<lparr>ID = ''w1'', Key = ''k1''\<rparr>"
    by simp
  have "mapGet (buildAuthMessage 1700000000000 (Stop ?c)) ''identity''
          = AMap [(''id'', AString ''w1''), (''key'', AString ''k1'')]"
    using m unfolding i by simp
  moreover have "conn (Stop ?c) = None"
    by (subst s) simp
  ultimately show ?thesis by (rule conjI)
qed

section \<open>Payloads: results\<close>

lemma TrimSpace_payloads:
  \<open>TrimSpace ''{"task":"analyze"}'' = ''{"task":"analyze"}''\<close>
  \<open>TrimSpace ''hello'' = ''hello''\<close>
  \<open>TrimSpace '' hello '' = ''hello''\<close>
  \<open>TrimSpace [] = []\<close>
  by (simp_all add: trim_eval)

lemma unmarshalAny_payloads:
  \<open>unmarshalAny ''{"task":"analyze"}'' = Some (AMap [(''task'', AString ''analyze'')])\<close>
  \<open>unmarshalAny ''hello'' = None\<close>
  \<open>unmarshalAny '' hello '' = None\<close>
  by (simp_all add: json_eval)

text \<open>
  C2, as the code has it. For every input: when it trims to the empty string the
  payload is the object with \<open>content\<close> empty; when the trimmed input decodes as JSON the
  payload is the decoded value; otherwise the payload is the object whose \<open>content\<close> is
  the trimmed input. The three results the specification lists hold.
\<close>

theorem buildPayload_cases:
  \<open>(TrimSpace s = [] \<longrightarrow> buildPayload s = AMap [(''content'', AString [])]) \<and>
   (\<forall>v. TrimSpace s \<noteq> [] \<and> unmarshalAny (TrimSpace s) = Some v \<longrightarrow> buildPayload s = v) \<and>
   (TrimSpace s \<noteq> [] \<and> unmarshalAny (TrimSpace s) = None \<longrightarrow>
      buildPayload s = AMap [(''content'', AString (TrimSpace s))]) \<and>
   buildPayload ''{"task":"analyze"}'' = AMap [(''task'', AString ''analyze'')] \<and>
   buildPayload ''hello'' = AMap [(''content'', AString ''hello'')] \<and>
   buildPayload [] = AMap [(''content'', AString [])]\<close>
  by (simp add: buildPayload_def Let_def TrimSpace_payloads unmarshalAny_payloads)

theorem buildPayload_cases_witness:
  \<open>buildPayload '' hello '' = AMap [(''content'', AString ''hello'')] \<and>
   buildPayload ''{"task":"analyze"}'' = AMap [(''task'', AString ''analyze'')]\<close>
  using buildPayload_cases [of \<open>'' hello ''\<close>]
  by (simp add: TrimSpace_payloads unmarshalAny_payloads)

text \<open>
  The input with a space on either side is no JSON and does not trim to the empty
  string, and its payload does not hold the input as it was passed: the content is the
  trimmed input.
\<close>

theorem buildPayload_wraps_trimmed:
  \<open>TrimSpace '' hello '' \<noteq> [] \<and> unmarshalAny '' hello '' = None \<and>
   unmarshalAny (TrimSpace '' hello '') = None \<and>
   buildPayload '' hello '' \<noteq> AMap [(''content'', AString '' hello '')]\<close>
  by (simp add: buildPayload_def Let_def TrimSpace_payloads unmarshalAny_payloads)

section \<open>The wait for auth_ok: results\<close>

lemma awaitAuthOK_ignored_one:
  "ignoredFrame f \<Longrightarrow> awaitAuthOK (ReadData f # rest) = awaitAuthOK rest"
  by (cases "unmarshalBase f") (simp_all add: ignoredFrame_def)

lemma awaitAuthOK_ignored:
  "list_all ignoredFrame fs \<Longrightarrow> awaitAuthOK (map ReadData fs @ rest) = awaitAuthOK rest"
  by (induction fs) (simp_all add: awaitAuthOK_ignored_one del: awaitAuthOK.simps)

text \<open>
  When the two decodings succeed: the frame is an object, or \<^verbatim>\<open>null\<close>, and each of its
  members fits.
\<close>

lemma stringField_snd: "snd (stringField v old) = fitsString v"
  by (cases v) (simp_all add: stringField_def fitsString_def)

lemma boolField_snd: "snd (boolField v old) = fitsBool v"
  by (cases v) (simp_all add: boolField_def fitsBool_def)

lemma setBaseField_snd: "snd (setBaseField (x, ok) m) = (ok \<and> fitsBase m)"
  using stringField_snd
  by (cases m) (auto simp add: setBaseField_def fitsBase_def Let_def split: prod.splits
      dest: arg_cong [where f = snd])

lemma foldl_setBaseField_snd:
  "snd (foldl setBaseField (x, ok) ms) = (ok \<and> list_all fitsBase ms)"
proof (induction ms arbitrary: x ok)
  case Nil
  then show ?case by simp
next
  case (Cons m ms)
  obtain x' ok' where s: "setBaseField (x, ok) m = (x', ok')"
    by (cases "setBaseField (x, ok) m")
  then have "ok' = (ok \<and> fitsBase m)"
    using setBaseField_snd [of x ok m] by simp
  then show ?case
    using Cons [of x' ok'] s by auto
qed

lemma unmarshalBase_decodes:
  "unmarshalBase data \<noteq> None \<longleftrightarrow>
     (\<exists>ms. structMembers data = Some ms \<and> list_all fitsBase ms)"
proof (cases "structMembers data")
  case None
  then show ?thesis by (simp add: unmarshalBase_def)
next
  case (Some ms)
  obtain x ok where f: "foldl setBaseField
      (\<lparr>base_Type = [], base_Code = [], base_Message = []\<rparr>, True) ms = (x, ok)"
    by (cases "foldl setBaseField
      (\<lparr>base_Type = [], base_Code = [], base_Message = []\<rparr>, True) ms")
  then have "ok = list_all fitsBase ms"
    using foldl_setBaseField_snd
      [of "\<lparr>base_Type = [], base_Code = [], base_Message = []\<rparr>" True ms] by simp
  then show ?thesis
    using Some f by (simp add: unmarshalBase_def)
qed

lemma setAuthOKField_snd: "snd (setAuthOKField (x, ok) m) = (ok \<and> fitsAuthOK m)"
  using stringField_snd boolField_snd
  by (cases m) (auto simp add: setAuthOKField_def fitsAuthOK_def Let_def split: prod.splits
      dest: arg_cong [where f = snd])

lemma foldl_setAuthOKField_snd:
  "snd (foldl setAuthOKField (x, ok) ms) = (ok \<and> list_all fitsAuthOK ms)"
proof (induction ms arbitrary: x ok)
  case Nil
  then show ?case by simp
next
  case (Cons m ms)
  obtain x' ok' where s: "setAuthOKField (x, ok) m = (x', ok')"
    by (cases "setAuthOKField (x, ok) m")
  then have "ok' = (ok \<and> fitsAuthOK m)"
    using setAuthOKField_snd [of x ok m] by simp
  then show ?case
    using Cons [of x' ok'] s by auto
qed

lemma unmarshalAuthOK_decodes:
  "unmarshalAuthOK data \<noteq> None \<longleftrightarrow>
     (\<exists>ms. structMembers data = Some ms \<and> list_all fitsAuthOK ms)"
proof (cases "structMembers data")
  case None
  then show ?thesis by (simp add: unmarshalAuthOK_def)
next
  case (Some ms)
  obtain x ok where f: "foldl setAuthOKField
      (\<lparr>ok_Type = [], ok_ID = [], ok_Key = [], ok_Role = [], ok_Reconnected = False\<rparr>, True) ms
        = (x, ok)"
    by (cases "foldl setAuthOKField
      (\<lparr>ok_Type = [], ok_ID = [], ok_Key = [], ok_Role = [], ok_Reconnected = False\<rparr>, True) ms")
  then have "ok = list_all fitsAuthOK ms"
    using foldl_setAuthOKField_snd
      [of "\<lparr>ok_Type = [], ok_ID = [], ok_Key = [], ok_Role = [], ok_Reconnected = False\<rparr>"
          True ms] by simp
  then show ?thesis
    using Some f by (simp add: unmarshalAuthOK_def)
qed

text \<open>
  C4, as the code has it. A frame decodes into the envelope of type, code and message
  when it is valid JSON, an object or \<^verbatim>\<open>null\<close>, and every member named type, code or
  message, in any case of the letters, is a string or \<^verbatim>\<open>null\<close>; it decodes into the
  \<open>auth_ok\<close> record when the same holds of type, id, key and role, and every member
  named reconnected is a boolean or \<^verbatim>\<open>null\<close>. Any number of frames that decode into
  the envelope with a type other than \<open>auth_ok\<close> and \<open>error\<close> are passed over, and the
  wait goes on with the frames after them. A frame that decodes into the envelope with
  the type \<open>error\<close> ends the wait with the rejection that carries the peer's message
  and code, the code being \<open>auth_failed\<close> when the frame has none or an empty one. A
  frame that decodes into the envelope with the type \<open>auth_ok\<close>, and into the
  \<open>auth_ok\<close> record, ends the wait with the protocol error when its id or key is
  empty, and with the decoded frame, id and key included, when both are set. A frame
  that does not decode into the envelope ends the wait with the error of an invalid
  response, whatever its type member says, and a frame of type \<open>auth_ok\<close> that does
  not decode into the \<open>auth_ok\<close> record ends it with the error of a failed parse.
\<close>

theorem awaitAuthOK_cases:
  "(unmarshalBase f \<noteq> None \<longleftrightarrow>
      (\<exists>ms. structMembers f = Some ms \<and> list_all fitsBase ms)) \<and>
   (unmarshalAuthOK f \<noteq> None \<longleftrightarrow>
      (\<exists>ms. structMembers f = Some ms \<and> list_all fitsAuthOK ms)) \<and>
   (list_all ignoredFrame fs \<longrightarrow> awaitAuthOK (map ReadData fs @ rest) = awaitAuthOK rest) \<and>
   (\<forall>b. unmarshalBase f = Some b \<and> base_Type b = ''error'' \<longrightarrow>
      awaitAuthOK (ReadData f # rest) =
        Inl (AuthRejected (base_Message b)
               (if base_Code b = [] then ''auth_failed'' else base_Code b))) \<and>
   (\<forall>b ok. unmarshalBase f = Some b \<and> base_Type b = ''auth_ok'' \<and>
      unmarshalAuthOK f = Some ok \<longrightarrow>
      awaitAuthOK (ReadData f # rest) =
        (if ok_ID ok = [] \<or> ok_Key ok = [] then Inl AuthOKMissingIDKey else Inr ok)) \<and>
   (unmarshalBase f = None \<longrightarrow> awaitAuthOK (ReadData f # rest) = Inl AuthResponseInvalidJSON) \<and>
   (\<forall>b. unmarshalBase f = Some b \<and> base_Type b = ''auth_ok'' \<and> unmarshalAuthOK f = None \<longrightarrow>
      awaitAuthOK (ReadData f # rest) = Inl ParseAuthOKFailed)"
proof (intro conjI)
  show "unmarshalBase f \<noteq> None \<longleftrightarrow>
      (\<exists>ms. structMembers f = Some ms \<and> list_all fitsBase ms)"
    by (rule unmarshalBase_decodes)
  show "unmarshalAuthOK f \<noteq> None \<longleftrightarrow>
      (\<exists>ms. structMembers f = Some ms \<and> list_all fitsAuthOK ms)"
    by (rule unmarshalAuthOK_decodes)
  show "list_all ignoredFrame fs \<longrightarrow> awaitAuthOK (map ReadData fs @ rest) = awaitAuthOK rest"
    by (simp add: awaitAuthOK_ignored)
qed simp_all

lemmas handshake_eval =
  unmarshalBase_def setBaseField_def unmarshalAuthOK_def setAuthOKField_def
  unmarshalHello_def setHelloField_def unmarshalIdentity_def setIdentityField_def

lemma frames_decoded:
  \<open>unmarshalBase ''{"type":"pong","timestamp":1700000000000}''
     = Some \<lparr>base_Type = ''pong'', base_Code = [], base_Message = []\<rparr>\<close>
  \<open>unmarshalBase ''{"type":"auth_ok","id":"w1","key":"k1","role":"employee","reconnected":false}''
     = Some \<lparr>base_Type = ''auth_ok'', base_Code = [], base_Message = []\<rparr>\<close>
  \<open>unmarshalAuthOK ''{"type":"auth_ok","id":"w1","key":"k1","role":"employee","reconnected":false}''
     = Some \<lparr>ok_Type = ''auth_ok'', ok_ID = ''w1'', ok_Key = ''k1'', ok_Role = ''employee'',
             ok_Reconnected = False\<rparr>\<close>
  \<open>unmarshalBase ''{"type":"error","message":"bad key"}''
     = Some \<lparr>base_Type = ''error'', base_Code = [], base_Message = ''bad key''\<rparr>\<close>
  \<open>unmarshalBase ''{"type":"auth_ok","id":"w1"}''
     = Some \<lparr>base_Type = ''auth_ok'', base_Code = [], base_Message = []\<rparr>\<close>
  \<open>unmarshalAuthOK ''{"type":"auth_ok","id":"w1"}''
     = Some \<lparr>ok_Type = ''auth_ok'', ok_ID = ''w1'', ok_Key = [], ok_Role = [],
             ok_Reconnected = False\<rparr>\<close>
  \<open>unmarshalBase ''{"type":'' = None\<close>
  \<open>unmarshalBase ''{"type":"pong","code":1}'' = None\<close>
  \<open>unmarshalBase ''{"type":"auth_ok","id":7}''
     = Some \<lparr>base_Type = ''auth_ok'', base_Code = [], base_Message = []\<rparr>\<close>
  \<open>unmarshalAuthOK ''{"type":"auth_ok","id":7}'' = None\<close>
  by (simp_all add: handshake_eval json_eval)

theorem awaitAuthOK_cases_witness:
  \<open>awaitAuthOK
     [ReadData ''{"type":"pong","timestamp":1700000000000}'',
      ReadData ''{"type":"auth_ok","id":"w1","key":"k1","role":"employee","reconnected":false}'']
     = Inr \<lparr>ok_Type = ''auth_ok'', ok_ID = ''w1'', ok_Key = ''k1'', ok_Role = ''employee'',
            ok_Reconnected = False\<rparr> \<and>
   awaitAuthOK [ReadData ''{"type":"error","message":"bad key"}'']
     = Inl (AuthRejected ''bad key'' ''auth_failed'') \<and>
   awaitAuthOK [ReadData ''{"type":"auth_ok","id":"w1"}''] = Inl AuthOKMissingIDKey \<and>
   awaitAuthOK [ReadData ''{"type":''] = Inl AuthResponseInvalidJSON \<and>
   awaitAuthOK [ReadData ''{"type":"auth_ok","id":7}''] = Inl ParseAuthOKFailed\<close>
proof -
  let ?pong = \<open>''{"type":"pong","timestamp":1700000000000}''\<close>
  let ?ok = \<open>''{"type":"auth_ok","id":"w1","key":"k1","role":"employee","reconnected":false}''\<close>
  have ign: "list_all ignoredFrame [?pong]"
    by (simp add: ignoredFrame_def frames_decoded)
  have "awaitAuthOK (map ReadData [?pong] @ [ReadData ?ok]) = awaitAuthOK [ReadData ?ok]"
    using awaitAuthOK_cases [where fs = "[?pong]" and rest = "[ReadData ?ok]"] ign by blast
  moreover have "awaitAuthOK (ReadData ?ok # []) =
      Inr \<lparr>ok_Type = ''auth_ok'', ok_ID = ''w1'', ok_Key = ''k1'', ok_Role = ''employee'',
           ok_Reconnected = False\<rparr>"
    using awaitAuthOK_cases [where fs = "[]" and rest = "[]" and f = ?ok, THEN conjunct2,
        THEN conjunct2]
    by (simp add: frames_decoded)
  ultimately have a: "awaitAuthOK [ReadData ?pong, ReadData ?ok] =
      Inr \<lparr>ok_Type = ''auth_ok'', ok_ID = ''w1'', ok_Key = ''k1'', ok_Role = ''employee'',
           ok_Reconnected = False\<rparr>"
    by simp
  have b: \<open>awaitAuthOK [ReadData ''{"type":"error","message":"bad key"}'']
     = Inl (AuthRejected ''bad key'' ''auth_failed'')\<close>
    using awaitAuthOK_cases [where fs = "[]" and rest = "[]"
        and f = \<open>''{"type":"error","message":"bad key"}''\<close>, THEN conjunct2, THEN conjunct2]
    by (simp add: frames_decoded)
  have c: \<open>awaitAuthOK [ReadData ''{"type":"auth_ok","id":"w1"}''] = Inl AuthOKMissingIDKey\<close>
    using awaitAuthOK_cases [where fs = "[]" and rest = "[]"
        and f = \<open>''{"type":"auth_ok","id":"w1"}''\<close>, THEN conjunct2, THEN conjunct2]
    by (simp add: frames_decoded)
  have d: \<open>awaitAuthOK [ReadData ''{"type":''] = Inl AuthResponseInvalidJSON\<close>
    using awaitAuthOK_cases [where fs = "[]" and rest = "[]" and f = \<open>''{"type":''\<close>,
        THEN conjunct2, THEN conjunct2]
    by (simp add: frames_decoded)
  have e: \<open>awaitAuthOK [ReadData ''{"type":"auth_ok","id":7}''] = Inl ParseAuthOKFailed\<close>
    using awaitAuthOK_cases [where fs = "[]" and rest = "[]"
        and f = \<open>''{"type":"auth_ok","id":7}''\<close>, THEN conjunct2, THEN conjunct2]
    by (simp add: frames_decoded)
  from a b c d e show ?thesis by blast
qed

text \<open>
  The restriction to frames that decode is needed. Each of the three frames below is
  valid JSON, an object with a type member. The first has a type other than \<open>auth_ok\<close>
  and \<open>error\<close> and a number as code: it is not passed over, the wait ends at it with
  the error of an invalid response although an \<open>auth_ok\<close> frame with id and key
  follows. The second has the type \<open>error\<close>, a message and the number 401 as code: the
  wait ends with the error of an invalid response, not with the rejection that
  carries the peer's message and code. The third has the type \<open>auth_ok\<close>, an id and a
  key that are not empty, and the number 1 as reconnected: the wait ends with the
  error of a failed parse, not with the id and the key.
\<close>

theorem awaitAuthOK_mistyped_member:
  \<open>parseJSON ''{"type":"pong","code":1}''
     = Some (JObject [(''type'', JString ''pong''), (''code'', JNumber ''1'')]) \<and>
   awaitAuthOK
     [ReadData ''{"type":"pong","code":1}'',
      ReadData ''{"type":"auth_ok","id":"w1","key":"k1","role":"employee","reconnected":false}'']
     = Inl AuthResponseInvalidJSON \<and>
   awaitAuthOK
     [ReadData ''{"type":"auth_ok","id":"w1","key":"k1","role":"employee","reconnected":false}'']
     = Inr \<lparr>ok_Type = ''auth_ok'', ok_ID = ''w1'', ok_Key = ''k1'', ok_Role = ''employee'',
            ok_Reconnected = False\<rparr> \<and>
   parseJSON ''{"type":"error","code":401,"message":"no"}''
     = Some (JObject [(''type'', JString ''error''), (''code'', JNumber ''401''),
                      (''message'', JString ''no'')]) \<and>
   awaitAuthOK [ReadData ''{"type":"error","code":401,"message":"no"}'']
     = Inl AuthResponseInvalidJSON \<and>
   parseJSON ''{"type":"auth_ok","id":"w1","key":"k1","role":"employee","reconnected":1}''
     = Some (JObject [(''type'', JString ''auth_ok''), (''id'', JString ''w1''),
                      (''key'', JString ''k1''), (''role'', JString ''employee''),
                      (''reconnected'', JNumber ''1'')]) \<and>
   awaitAuthOK
     [ReadData ''{"type":"auth_ok","id":"w1","key":"k1","role":"employee","reconnected":1}'']
     = Inl ParseAuthOKFailed\<close>
  by (simp add: handshake_eval json_eval)
section \<open>The identity: results\<close>

lemma loadIdentity_whole:
  "wholeIdentity (identity c) \<Longrightarrow> wholeIdentity (identity (snd (loadIdentity c)))"
  by (simp add: loadIdentity_def wholeIdentity_def split: diskFile.splits option.splits)

lemma NewWorkerWSChannel_whole:
  "wholeIdentity (identity (NewWorkerWSChannel cfg disk))"
  by (simp add: NewWorkerWSChannel_def loadIdentity_def wholeIdentity_def
      split: diskFile.splits option.splits)

lemma saveIdentity_partial:
  "ID (identity c) = [] \<or> Key (identity c) = [] \<Longrightarrow> saveIdentity fsOK c = (Inr (), c)"
  by (simp add: saveIdentity_def Let_def)

lemma saveIdentity_identity: "identity (snd (saveIdentity fsOK c)) = identity c"
  by (simp add: saveIdentity_def Let_def)

lemma saveIdentity_file:
  "identityFile (snd (saveIdentity fsOK c)) = identityFile c \<or>
   (ID (identity c) \<noteq> [] \<and> Key (identity c) \<noteq> [] \<and>
    identityFile (snd (saveIdentity fsOK c)) = File (marshalIdentity (identity c)))"
  by (simp add: saveIdentity_def Let_def)

lemma map_of_mapSet: "map_of (mapSet k v m) = (map_of m)(k \<mapsto> v)"
  by (simp add: mapSet_def update_conv')

lemma buildAuthMessage_identity_iff:
  "map_of (buildAuthMessage now c) ''identity'' \<noteq> None
     \<longleftrightarrow> ID (identity c) \<noteq> [] \<and> Key (identity c) \<noteq> []"
  by (simp add: buildAuthMessage_def Let_def map_of_mapSet)

lemma awaitAuthOK_whole:
  "awaitAuthOK reads = Inr ok \<Longrightarrow> ok_ID ok \<noteq> [] \<and> ok_Key ok \<noteq> []"
proof (induction reads rule: awaitAuthOK.induct)
  case 1
  then show ?case by simp
next
  case (2 rest)
  then show ?case by simp
next
  case (3 data rest)
  then show ?case
    by (auto split: option.splits if_splits)
qed

lemma connectAndAuthenticate_whole:
  assumes "wholeIdentity (identity c)"
  shows "wholeIdentity (identity (snd (connectAndAuthenticate dial reads wr fsOK now c)))"
  using assms
  by (auto simp add: connectAndAuthenticate_def closeConn_def writeJSONConn_def Let_def
          saveIdentity_identity wholeIdentity_def
        split: option.splits sum.splits prod.splits if_splits
        dest: awaitAuthOK_whole)

lemma auth_ok_frame_decoded:
  \<open>unmarshalMap ''{"type":"auth_ok","id":"w2"}''
     = Some [(''type'', AString ''auth_ok''), (''id'', AString ''w2'')]\<close>
  by (simp add: json_eval)

text \<open>
  C1 fails in the handler of an unsolicited \<open>auth_ok\<close>, which looks at the id alone. On
  the frame below, which has an id and no key, it puts an identity with an empty key
  in memory, whatever identity the channel held; nothing is written to the identity
  file, and the next auth message carries no identity.
\<close>

theorem unsolicited_auth_ok_partial:
  \<open>identity (handleServerMessage L fsOK ''{"type":"auth_ok","id":"w2"}'' c)
     = \<lparr>ID = ''w2'', Key = []\<rparr> \<and>
   \<not> wholeIdentity (identity (handleServerMessage L fsOK ''{"type":"auth_ok","id":"w2"}'' c)) \<and>
   identityFile (handleServerMessage L fsOK ''{"type":"auth_ok","id":"w2"}'' c)
     = identityFile c \<and>
   map_of (buildAuthMessage now (handleServerMessage L fsOK ''{"type":"auth_ok","id":"w2"}'' c))
     ''identity'' = None\<close>
proof -
  let ?c = \<open>handleServerMessage L fsOK ''{"type":"auth_ok","id":"w2"}'' c\<close>
  have eq: "?c = c\<lparr>identity := \<lparr>ID = ''w2'', Key = []\<rparr>\<rparr>"
    by (simp add: handleServerMessage_def auth_ok_frame_decoded mapGet_def asString_def
        saveIdentity_def Let_def)
  have i: "identity ?c = \<lparr>ID = ''w2'', Key = []\<rparr>"
    by (subst eq) simp
  have f: "identityFile ?c = identityFile c"
    by (subst eq) simp
  have "\<not> (ID (identity ?c) \<noteq> [] \<and> Key (identity ?c) \<noteq> [])"
    unfolding i by simp
  then have m: "map_of (buildAuthMessage now ?c) ''identity'' = None"
    using buildAuthMessage_identity_iff [of now ?c] by blast
  have n: "\<not> wholeIdentity (identity ?c)"
    unfolding i by (simp add: wholeIdentity_def)
  from i n f m show ?thesis by blast
qed

section \<open>Inbound metadata: results\<close>

lemma digitByte_digit: "digitByte n \<in> set ''0123456789''"
proof -
  have "n mod 10 < length ''0123456789''" by simp
  then show ?thesis
    unfolding digitByte_def by (rule nth_mem)
qed

lemma decimal_nonempty: "decimal n \<noteq> []"
  by (subst decimal.simps) simp

lemma decimal_digits: "set (decimal n) \<subseteq> set ''0123456789''"
proof (induction n rule: decimal.induct)
  case (1 n)
  show ?case
  proof (cases "n < 10")
    case True
    then have "decimal n = [digitByte n]" by (subst decimal.simps) simp
    then show ?thesis using digitByte_digit [of n] by simp
  next
    case False
    then have "decimal n = decimal (n div 10) @ [digitByte n]" by (subst decimal.simps) simp
    then show ?thesis using 1 False digitByte_digit [of n] by simp
  qed
qed

lemma sprintf_f0_nonempty: "sprintf_f0 f \<noteq> []"
  by (cases f) (simp add: sprintf_f0_def decimal_nonempty)

lemma sprintf_f0_no_fraction: "CHR ''.'' \<notin> set (sprintf_f0 f)"
proof (cases f)
  case (Float64 neg m d)
  have "CHR ''.'' \<notin> set (decimal k)" for k
    using decimal_digits [of k] by auto
  then show ?thesis
    using Float64 by (simp add: sprintf_f0_def)
qed

lemma asString_absent: "asString L ANil = []"
  by (simp add: asString_def)

lemma mapGet_absent: "map_of msg k = None \<or> map_of msg k = Some ANil \<Longrightarrow> mapGet msg k = ANil"
  by (auto simp add: mapGet_def)

text \<open>The metadata of a routed message that is delivered, key by key.\<close>

lemma inbound_delivery:
  assumes "IsAllowed c (if asString L (mapGet msg ''from_id'') = [] then ''worker_ws''
                        else asString L (mapGet msg ''from_id''))"
    and "k \<in> {''msg_id'', ''from_role'', ''to'', ''timestamp''}"
  shows "\<exists>d. bus (handleInboundRoutedMessage L msg c) = bus c @ [d] \<and>
             metadata d k = (if asString L (mapGet msg k) = [] then None
                             else Some (asString L (mapGet msg k)))"
  using assms
  by (auto simp add: handleInboundRoutedMessage_def HandleMessage_def Let_def)

text \<open>
  C10. For a routed message from a sender the allow-list admits, and each of the keys
  \<open>msg_id\<close>, \<open>from_role\<close>, \<open>to\<close> and \<open>timestamp\<close>: one delivery reaches the bus; a field
  that is a number appears in its metadata as the text of the nearest integer, which is
  not empty and has no fraction; the key is left out exactly when the field's text is
  empty, which it is when the field is absent or null; and a field whose text is not
  empty appears with that text.
\<close>

theorem inbound_metadata:
  assumes "IsAllowed c (if asString L (mapGet msg ''from_id'') = [] then ''worker_ws''
                        else asString L (mapGet msg ''from_id''))"
    and "k \<in> {''msg_id'', ''from_role'', ''to'', ''timestamp''}"
  shows "\<exists>d. bus (handleInboundRoutedMessage L msg c) = bus c @ [d] \<and>
             (\<forall>f. mapGet msg k = AFloat64 f \<longrightarrow>
                    metadata d k = Some (sprintf_f0 f) \<and> sprintf_f0 f \<noteq> [] \<and>
                    CHR ''.'' \<notin> set (sprintf_f0 f)) \<and>
             (metadata d k = None \<longleftrightarrow> asString L (mapGet msg k) = []) \<and>
             (map_of msg k = None \<or> map_of msg k = Some ANil \<longrightarrow> metadata d k = None) \<and>
             (asString L (mapGet msg k) \<noteq> [] \<longrightarrow>
                metadata d k = Some (asString L (mapGet msg k)))"
proof -
  obtain d where b: "bus (handleInboundRoutedMessage L msg c) = bus c @ [d]"
    and m: "metadata d k = (if asString L (mapGet msg k) = [] then None
                            else Some (asString L (mapGet msg k)))"
    using inbound_delivery [OF assms] by blast
  have num: "metadata d k = Some (sprintf_f0 f)" if "mapGet msg k = AFloat64 f" for f
    using m that by (simp add: asString_def sprintf_f0_nonempty)
  have absent: "metadata d k = None" if "map_of msg k = None \<or> map_of msg k = Some ANil"
    using m mapGet_absent [OF that] by (simp add: asString_def)
  show ?thesis
    using b m num absent sprintf_f0_nonempty sprintf_f0_no_fraction
    by (intro exI [of _ d]) auto
qed

lemma sprintf_f0_examples:
  "sprintf_f0 (Float64 False 1700000000000 0) = ''1700000000000''"
  "sprintf_f0 (Float64 False 5 1) = ''2''"
  by (simp_all add: float_eval)

theorem inbound_metadata_witness:
  "(\<exists>d. bus (handleInboundRoutedMessage plainLib routedExample idleChannel) = [d] \<and>
        metadata d ''timestamp'' = Some ''1700000000000'') \<and>
   (\<exists>d. bus (handleInboundRoutedMessage plainLib routedExample idleChannel) = [d] \<and>
        metadata d ''msg_id'' = Some ''2'' \<and> metadata d ''to'' = None)"
proof -
  have allowed: "IsAllowed idleChannel
      (if asString plainLib (mapGet routedExample ''from_id'') = [] then ''worker_ws''
       else asString plainLib (mapGet routedExample ''from_id''))"
    by (simp add: IsAllowed_def idleChannel_def)
  have vals: "mapGet routedExample ''timestamp'' = AFloat64 (Float64 False 1700000000000 0)"
    "mapGet routedExample ''msg_id'' = AFloat64 (Float64 False 5 1)"
    "map_of routedExample ''to'' = None"
    by (simp_all add: routedExample_def mapGet_def)
  have e: "bus idleChannel = []"
    by (simp add: idleChannel_def)
  obtain d1 where d1: "bus (handleInboundRoutedMessage plainLib routedExample idleChannel) = [d1]"
    "metadata d1 ''timestamp'' = Some ''1700000000000''"
    using inbound_metadata [OF allowed, of "''timestamp''"] vals e sprintf_f0_examples
    by auto
  obtain d2 where d2: "bus (handleInboundRoutedMessage plainLib routedExample idleChannel) = [d2]"
    "metadata d2 ''msg_id'' = Some ''2''"
    using inbound_metadata [OF allowed, of "''msg_id''"] vals e sprintf_f0_examples
    by auto
  obtain d3 where d3: "bus (handleInboundRoutedMessage plainLib routedExample idleChannel) = [d3]"
    "metadata d3 ''to'' = None"
    using inbound_metadata [OF allowed, of "''to''"] vals e
    by auto
  from d2 d3 have "d3 = d2" by simp
  with d1 d2 d3 show ?thesis by blast
qed

text \<open>The same from the bytes of a frame, through the dispatch of the read loop.\<close>

lemma routed_frame_decoded:
  \<open>unmarshalMap ''{"type":"message","from_id":"boss-1","payload":"hi","timestamp":1700000000000}''
     = Some [(''type'', AString ''message''), (''from_id'', AString ''boss-1''),
             (''payload'', AString ''hi''),
             (''timestamp'', AFloat64 (Float64 False 1700000000000 0))]\<close>
  by (simp add: json_eval float_eval)

lemma routed_frame_delivered:
  \<open>bus (handleServerMessage plainLib True
          ''{"type":"message","from_id":"boss-1","payload":"hi","timestamp":1700000000000}''
          idleChannel)
     = [\<lparr>senderID = ''boss-1'', chatID = ''boss-1'', content = ''hi'',
         metadata = [''timestamp'' \<mapsto> ''1700000000000'']\<rparr>]\<close>
  by (simp add: handleServerMessage_def routed_frame_decoded handleInboundRoutedMessage_def
      HandleMessage_def IsAllowed_def idleChannel_def mapGet_def asString_def
      payloadToContent_def sprintf_f0_examples Let_def)


end
